theory Spec2Isabelle
  imports Main "HOL-Library.Word"
begin

unbundle bit_operations_syntax

section \<open>Text, bytes and exceptions\<close>

text \<open>
  A Python \<open>str\<close> is a sequence of Unicode code points; a code point is a natural
  number. Literals of the script are written \<open>py ''...''\<close>.
\<close>

type_synonym str = "nat list"
type_synonym byte = "8 word"
type_synonym word32 = "32 word"

definition py :: "string \<Rightarrow> str" where
  "py s = map of_char s"

definition LF :: nat where "LF = 10"
definition CR :: nat where "CR = 13"

text \<open>The exceptions that the script raises, catches or lets through.\<close>

datatype exn = OSError | TypeError | AttributeError | IndexError | FileNotFoundError
  | UnboundLocalError | UnicodeEncodeError | Csv_Error

text \<open>
  A computation that may raise is a value of \<open>exn + 'a\<close>; \<open>and_then\<close> runs the next
  statement unless the first one raised. Reading an attribute that an object lacks
  raises \<open>AttributeError\<close>; reading a local variable that is not bound raises
  \<open>UnboundLocalError\<close>.
\<close>

definition and_then :: "exn + 'a \<Rightarrow> ('a \<Rightarrow> exn + 'b) \<Rightarrow> exn + 'b" where
  "and_then m f = (case m of Inl e \<Rightarrow> Inl e | Inr x \<Rightarrow> f x)"

definition attribute :: "'a option \<Rightarrow> exn + 'a" where
  "attribute a = (case a of None \<Rightarrow> Inl AttributeError | Some x \<Rightarrow> Inr x)"

definition local_variable :: "'a option \<Rightarrow> exn + 'a" where
  "local_variable v = (case v of None \<Rightarrow> Inl UnboundLocalError | Some x \<Rightarrow> Inr x)"

subsection \<open>\<open>str.encode('utf-8')\<close>\<close>

definition encode_char :: "nat \<Rightarrow> exn + byte list" where
  "encode_char c =
     (if c < 0x80 then Inr [of_nat c]
      else if c < 0x800 then Inr [of_nat (0xC0 + c div 64), of_nat (0x80 + c mod 64)]
      else if 0xD800 \<le> c \<and> c \<le> 0xDFFF then Inl UnicodeEncodeError
      else if c < 0x10000 then
        Inr [of_nat (0xE0 + c div 4096), of_nat (0x80 + c div 64 mod 64),
             of_nat (0x80 + c mod 64)]
      else
        Inr [of_nat (0xF0 + c div 262144), of_nat (0x80 + c div 4096 mod 64),
             of_nat (0x80 + c div 64 mod 64), of_nat (0x80 + c mod 64)])"

fun encode_utf8 :: "str \<Rightarrow> exn + byte list" where
  "encode_utf8 [] = Inr []"
| "encode_utf8 (c # cs) =
     (case encode_char c of
        Inl e \<Rightarrow> Inl e
      | Inr bs \<Rightarrow> (case encode_utf8 cs of Inl e \<Rightarrow> Inl e | Inr rest \<Rightarrow> Inr (bs @ rest)))"

text \<open>
  A file opened in text mode encodes what is written to it. The encoding of the files
  is taken to be UTF-8, for writing and for reading back: \<open>encoded\<close> is the text as it
  reaches the file, or the error of the encoder, which \<open>write\<close> raises.
\<close>

definition encoded :: "str \<Rightarrow> exn + str" where
  "encoded t = and_then (encode_utf8 t) (\<lambda>bytes. Inr t)"

subsection \<open>\<open>hashlib.md5\<close> (RFC 1321)\<close>

definition md5_K :: "word32 list" where
  "md5_K =
    [0xd76aa478, 0xe8c7b756, 0x242070db, 0xc1bdceee,
     0xf57c0faf, 0x4787c62a, 0xa8304613, 0xfd469501,
     0x698098d8, 0x8b44f7af, 0xffff5bb1, 0x895cd7be,
     0x6b901122, 0xfd987193, 0xa679438e, 0x49b40821,
     0xf61e2562, 0xc040b340, 0x265e5a51, 0xe9b6c7aa,
     0xd62f105d, 0x02441453, 0xd8a1e681, 0xe7d3fbc8,
     0x21e1cde6, 0xc33707d6, 0xf4d50d87, 0x455a14ed,
     0xa9e3e905, 0xfcefa3f8, 0x676f02d9, 0x8d2a4c8a,
     0xfffa3942, 0x8771f681, 0x6d9d6122, 0xfde5380c,
     0xa4beea44, 0x4bdecfa9, 0xf6bb4b60, 0xbebfbc70,
     0x289b7ec6, 0xeaa127fa, 0xd4ef3085, 0x04881d05,
     0xd9d4d039, 0xe6db99e5, 0x1fa27cf8, 0xc4ac5665,
     0xf4292244, 0x432aff97, 0xab9423a7, 0xfc93a039,
     0x655b59c3, 0x8f0ccc92, 0xffeff47d, 0x85845dd1,
     0x6fa87e4f, 0xfe2ce6e0, 0xa3014314, 0x4e0811a1,
     0xf7537e82, 0xbd3af235, 0x2ad7d2bb, 0xeb86d391]"

definition md5_S :: "nat list" where
  "md5_S =
    [7, 12, 17, 22, 7, 12, 17, 22, 7, 12, 17, 22, 7, 12, 17, 22,
     5, 9, 14, 20, 5, 9, 14, 20, 5, 9, 14, 20, 5, 9, 14, 20,
     4, 11, 16, 23, 4, 11, 16, 23, 4, 11, 16, 23, 4, 11, 16, 23,
     6, 10, 15, 21, 6, 10, 15, 21, 6, 10, 15, 21, 6, 10, 15, 21]"

type_synonym md5_state = "word32 \<times> word32 \<times> word32 \<times> word32"

definition md5_init :: md5_state where
  "md5_init = (0x67452301, 0xefcdab89, 0x98badcfe, 0x10325476)"

definition md5_round :: "word32 list \<Rightarrow> md5_state \<Rightarrow> nat \<Rightarrow> md5_state" where
  "md5_round M st i =
     (case st of (a, b, c, d) \<Rightarrow>
        let f = (if i < 16 then (b AND c) OR (NOT b AND d)
                 else if i < 32 then (d AND b) OR (NOT d AND c)
                 else if i < 48 then b XOR c XOR d
                 else c XOR (b OR NOT d));
            g = (if i < 16 then i
                 else if i < 32 then (5 * i + 1) mod 16
                 else if i < 48 then (3 * i + 5) mod 16
                 else (7 * i) mod 16);
            f' = f + a + md5_K ! i + M ! g
        in (d, b + word_rotl (md5_S ! i) f', b, c))"

definition md5_block :: "md5_state \<Rightarrow> word32 list \<Rightarrow> md5_state" where
  "md5_block st M =
     (case st of (a0, b0, c0, d0) \<Rightarrow>
        case foldl (md5_round M) st [0..<64] of (a, b, c, d) \<Rightarrow>
          (a0 + a, b0 + b, c0 + c, d0 + d))"

definition le_bytes :: "nat \<Rightarrow> 'a::len word \<Rightarrow> byte list" where
  "le_bytes k w = map (\<lambda>i. ucast (drop_bit (8 * i) w)) [0..<k]"

definition md5_pad :: "byte list \<Rightarrow> byte list" where
  "md5_pad m =
     m @ [0x80] @ replicate ((119 - length m mod 64) mod 64) 0
       @ le_bytes 8 (8 * of_nat (length m) :: 64 word)"

fun le_words :: "byte list \<Rightarrow> word32 list" where
  "le_words (b0 # b1 # b2 # b3 # bs) =
     (ucast b0 + push_bit 8 (ucast b1) + push_bit 16 (ucast b2) + push_bit 24 (ucast b3))
       # le_words bs"
| "le_words _ = []"

fun md5_blocks :: "md5_state \<Rightarrow> word32 list \<Rightarrow> md5_state" where
  "md5_blocks st ws = (if length ws < 16 then st
                       else md5_blocks (md5_block st (take 16 ws)) (drop 16 ws))"

declare md5_blocks.simps [simp del]

definition md5_digest :: "byte list \<Rightarrow> byte list" where
  "md5_digest m =
     (case md5_blocks md5_init (le_words (md5_pad m)) of (a, b, c, d) \<Rightarrow>
        concat (map (le_bytes 4) [a, b, c, d]))"

definition hexdigits :: str where
  "hexdigits = py ''0123456789abcdef''"

definition hex_byte :: "byte \<Rightarrow> str" where
  "hex_byte b = [hexdigits ! (unat b div 16), hexdigits ! (unat b mod 16)]"

definition md5_hexdigest :: "byte list \<Rightarrow> str" where
  "md5_hexdigest m = concat (map hex_byte (md5_digest m))"

section \<open>Strategies and their hash\<close>

text \<open>
  What the script reads of a strategy (a player class of the library, or a player
  instance of the Fortran wrapper): its \<open>name\<close>, which every player has, its
  \<open>original_name\<close> when it has that attribute, the outcome of \<open>inspect.getsourcelines\<close>
  on the object itself, and the outcome of \<open>inspect.getsourcelines\<close> on its \<open>strategy\<close>
  attribute when it has one.
\<close>

record strategy =
  name :: str
  original_name :: "str option"
  getsourcelines :: "exn + str list"
  strategy_getsourcelines :: "(exn + str list) option"

text \<open>The lookups that \<open>hash_strategy\<close> attempts, in the order it attempts them.\<close>

datatype lookup = Source_of_object | Source_of_strategy_attribute | Original_name_attribute

definition join :: "str list \<Rightarrow> str" where
  "join parts = concat parts"

text \<open>\<open>except OSError\<close> also catches \<open>FileNotFoundError\<close>, a subclass of \<open>OSError\<close>.\<close>

definition is_OSError :: "exn \<Rightarrow> bool" where
  "is_OSError e \<longleftrightarrow> e = OSError \<or> e = FileNotFoundError"

definition source_code :: "strategy \<Rightarrow> lookup list \<times> (exn + str)" where
  "source_code s =
     (case getsourcelines s of
        Inr lines \<Rightarrow> ([Source_of_object], Inr (join lines))
      | Inl e \<Rightarrow>
          if is_OSError e then
            ([Source_of_object, Source_of_strategy_attribute],
             and_then (attribute (strategy_getsourcelines s)) (\<lambda>outcome.
             and_then outcome (\<lambda>lines. Inr (join lines))))
          else if e = TypeError then
            ([Source_of_object, Original_name_attribute],
             and_then (attribute (original_name s)) (\<lambda>n. Inr (join (map (\<lambda>c. [c]) n))))
          else ([Source_of_object], Inl e))"

definition hash_strategy :: "strategy \<Rightarrow> exn + str" where
  "hash_strategy s =
     and_then (snd (source_code s)) (\<lambda>source.
     and_then (encode_utf8 source) (\<lambda>bytes.
     Inr (md5_hexdigest bytes)))"

section \<open>The file system and the fingerprinting library\<close>

text \<open>
  A fingerprint is computed by the simulation library; the model records which
  computation was run (the kind of fingerprint, the strategy, the turns and the
  repetitions) and not its numerical result.
\<close>

datatype fingerprint =
    AshlockFingerprint strategy int int
  | TransitiveFingerprint strategy int int
  | TransitiveFingerprint_v_short strategy int int

datatype artifact = Figure fingerprint | Data fingerprint

text \<open>
  The state of the world outside the script: the text files by path (the cache file
  and the report), the figures and data files by path, and the fingerprint
  computations that the library has run, oldest first. A text file holds the text that
  was written to it, a line feed being written as it is; a write raises, and writes
  nothing, when the text cannot be encoded. The calls into the simulation and plotting
  libraries return.
\<close>

record world =
  files :: "str \<rightharpoonup> str"
  artifacts :: "str \<rightharpoonup> artifact"
  computed :: "fingerprint list"

definition db_csv :: str where
  "db_csv = py ''db.csv''"

text \<open>\<open>open(filename, "a")\<close> creates a missing file; the write goes to the end.\<close>

definition append_file :: "str \<Rightarrow> str \<Rightarrow> world \<Rightarrow> world" where
  "append_file filename text w =
     w\<lparr>files := (files w)(filename \<mapsto>
        (case files w filename of None \<Rightarrow> [] | Some old \<Rightarrow> old) @ text)\<rparr>"

text \<open>The name under which a strategy is filed: \<open>original_name\<close>, or else \<open>name\<close>.\<close>

definition display_name :: "strategy \<Rightarrow> str" where
  "display_name s = (case original_name s of Some n \<Rightarrow> n | None \<Rightarrow> name s)"

definition write_strategy_to_db :: "strategy \<Rightarrow> str \<Rightarrow> str \<Rightarrow> world \<Rightarrow> exn + world" where
  "write_strategy_to_db s filename fingerprint w =
     and_then (hash_strategy s) (\<lambda>hashed_source.
     and_then (encoded (display_name s @ py '','' @ fingerprint @ py '','' @ hashed_source
                 @ [LF])) (\<lambda>line.
       Inr (append_file filename line w)))"

definition create_db :: "str \<Rightarrow> world \<Rightarrow> world" where
  "create_db filename w = w\<lparr>files := (files w)(filename \<mapsto> [])\<rparr>"

subsection \<open>Reading a text file line by line\<close>

text \<open>
  A file opened with \<open>open(filename, "r")\<close> translates \<open>\r\n\<close> and \<open>\r\<close> to \<open>\n\<close>;
  iterating over it gives the lines, each with its \<open>\n\<close> except possibly the last.
  The flag of \<open>universal_newlines\<close> says that the character before was a \<open>\r\<close>.
\<close>

primrec universal_newlines :: "bool \<Rightarrow> str \<Rightarrow> str" where
  "universal_newlines after_cr [] = []"
| "universal_newlines after_cr (c # cs) =
     (if c = CR then LF # universal_newlines True cs
      else if c = LF \<and> after_cr then universal_newlines False cs
      else c # universal_newlines False cs)"

primrec split_lines :: "str \<Rightarrow> str \<Rightarrow> str list" where
  "split_lines cur [] = (if cur = [] then [] else [cur])"
| "split_lines cur (c # cs) =
     (if c = LF then (cur @ [c]) # split_lines [] cs else split_lines (cur @ [c]) cs)"

definition readlines :: "str \<Rightarrow> str list" where
  "readlines text = split_lines [] (universal_newlines False text)"

subsection \<open>\<open>csv.reader\<close> with the default dialect\<close>

text \<open>
  The reader of the \<open>csv\<close> module in its default (\<open>excel\<close>) dialect: delimiter
  \<open>,\<close>, quote character \<open>"\<close>, doubled quotes, no escape character, not strict, and
  the field size limit 131072. The states an escape character would need are left out.
  The end of a line is the marker \<open>None\<close>.
\<close>

datatype parser_state =
  START_RECORD | START_FIELD | IN_FIELD | IN_QUOTED_FIELD | QUOTE_IN_QUOTED_FIELD | EAT_CRNL

record reader =
  state :: parser_state
  row_fields :: "str list"
  field :: str

definition delimiter :: nat where "delimiter = of_char CHR '',''"
definition quotechar :: nat where "quotechar = of_char CHR 0x22"
definition field_limit :: nat where "field_limit = 131072"

definition parse_reset :: reader where
  "parse_reset = \<lparr>state = START_RECORD, row_fields = [], field = []\<rparr>"

definition parse_save_field :: "reader \<Rightarrow> reader" where
  "parse_save_field r = r\<lparr>row_fields := row_fields r @ [field r], field := []\<rparr>"

definition parse_add_char :: "reader \<Rightarrow> nat \<Rightarrow> exn + reader" where
  "parse_add_char r c =
     (if length (field r) \<ge> field_limit then Inl Csv_Error
      else Inr (r\<lparr>field := field r @ [c]\<rparr>))"

definition set_state :: "parser_state \<Rightarrow> exn + reader \<Rightarrow> exn + reader" where
  "set_state st res = (case res of Inl e \<Rightarrow> Inl e | Inr r \<Rightarrow> Inr (r\<lparr>state := st\<rparr>))"

definition end_of_line :: "nat option \<Rightarrow> bool" where
  "end_of_line c = (c = None \<or> c = Some LF \<or> c = Some CR)"

definition after_line_end :: "nat option \<Rightarrow> parser_state" where
  "after_line_end c = (if c = None then START_RECORD else EAT_CRNL)"

definition start_field :: "reader \<Rightarrow> nat option \<Rightarrow> exn + reader" where
  "start_field r c =
     (if end_of_line c then Inr ((parse_save_field r)\<lparr>state := after_line_end c\<rparr>)
      else if c = Some quotechar then Inr (r\<lparr>state := IN_QUOTED_FIELD\<rparr>)
      else if c = Some delimiter then Inr (parse_save_field r)
      else set_state IN_FIELD (parse_add_char r (the c)))"

definition parse_process_char :: "reader \<Rightarrow> nat option \<Rightarrow> exn + reader" where
  "parse_process_char r c =
     (case state r of
        START_RECORD \<Rightarrow>
          (if c = None then Inr r
           else if c = Some LF \<or> c = Some CR then Inr (r\<lparr>state := EAT_CRNL\<rparr>)
           else start_field (r\<lparr>state := START_FIELD\<rparr>) c)
      | START_FIELD \<Rightarrow> start_field r c
      | IN_FIELD \<Rightarrow>
          (if end_of_line c then Inr ((parse_save_field r)\<lparr>state := after_line_end c\<rparr>)
           else if c = Some delimiter then Inr ((parse_save_field r)\<lparr>state := START_FIELD\<rparr>)
           else parse_add_char r (the c))
      | IN_QUOTED_FIELD \<Rightarrow>
          (if c = None then Inr r
           else if c = Some quotechar then Inr (r\<lparr>state := QUOTE_IN_QUOTED_FIELD\<rparr>)
           else parse_add_char r (the c))
      | QUOTE_IN_QUOTED_FIELD \<Rightarrow>
          (if c = Some quotechar then set_state IN_QUOTED_FIELD (parse_add_char r quotechar)
           else if c = Some delimiter then Inr ((parse_save_field r)\<lparr>state := START_FIELD\<rparr>)
           else if end_of_line c then Inr ((parse_save_field r)\<lparr>state := after_line_end c\<rparr>)
           else set_state IN_FIELD (parse_add_char r (the c)))
      | EAT_CRNL \<Rightarrow>
          (if c = Some LF \<or> c = Some CR then Inr r
           else if c = None then Inr (r\<lparr>state := START_RECORD\<rparr>)
           else Inl Csv_Error))"

text \<open>One line: its characters, then the end-of-line marker.\<close>

primrec parse_chars :: "reader \<Rightarrow> str \<Rightarrow> exn + reader" where
  "parse_chars r [] = Inr r"
| "parse_chars r (c # cs) =
     (case parse_process_char r (Some c) of Inl e \<Rightarrow> Inl e | Inr r' \<Rightarrow> parse_chars r' cs)"

definition parse_line :: "reader \<Rightarrow> str \<Rightarrow> exn + reader" where
  "parse_line r line =
     (case parse_chars r line of Inl e \<Rightarrow> Inl e | Inr r' \<Rightarrow> parse_process_char r' None)"

text \<open>
  The outcomes of the successive \<open>next\<close> calls on the reader: a row each, until the
  lines run out or a call raises. A record goes on over the next line while the state is
  not \<open>START_RECORD\<close>; at the end of the input a pending field closes the last row.
\<close>

primrec reader_rows :: "reader \<Rightarrow> str list \<Rightarrow> (exn + str list) list" where
  "reader_rows r [] =
     (if field r \<noteq> [] \<or> state r = IN_QUOTED_FIELD then [Inr (row_fields (parse_save_field r))]
      else [])"
| "reader_rows r (line # rest) =
     (case parse_line r line of
        Inl e \<Rightarrow> [Inl e]
      | Inr r' \<Rightarrow>
          if state r' = START_RECORD then Inr (row_fields r') # reader_rows parse_reset rest
          else reader_rows r' rest)"

definition csv_reader :: "str list \<Rightarrow> (exn + str list) list" where
  "csv_reader lines = reader_rows parse_reset lines"

subsection \<open>The cache\<close>

type_synonym db = "str \<times> str \<rightharpoonup> str"

text \<open>
  The dictionary comprehension of \<open>read_db\<close>: it takes the rows one by one, and a
  row with fewer than three fields raises \<open>IndexError\<close>.
\<close>

fun dict_of_rows :: "(exn + str list) list \<Rightarrow> db \<Rightarrow> exn + db" where
  "dict_of_rows [] str_to_hash = Inr str_to_hash"
| "dict_of_rows (Inl e # rest) str_to_hash = Inl e"
| "dict_of_rows (Inr (r0 # r1 # r2 # others) # rest) str_to_hash =
     dict_of_rows rest (str_to_hash((r0, r1) \<mapsto> r2))"
| "dict_of_rows (Inr row # rest) str_to_hash = Inl IndexError"

definition read_db :: "str \<Rightarrow> world \<Rightarrow> exn + db" where
  "read_db filename w =
     (case files w filename of
        None \<Rightarrow> Inl FileNotFoundError
      | Some text \<Rightarrow> dict_of_rows (csv_reader (readlines text)) Map.empty)"

section \<open>File names and artifacts\<close>

definition ascii_letters :: str where
  "ascii_letters = py ''abcdefghijklmnopqrstuvwxyzABCDEFGHIJKLMNOPQRSTUVWXYZ''"

definition digits :: str where
  "digits = py ''0123456789''"

definition valid_chars :: str where
  "valid_chars = py ''-_.() '' @ ascii_letters @ digits"

definition replace_char :: "nat \<Rightarrow> nat \<Rightarrow> str \<Rightarrow> str" where
  "replace_char old new s = map (\<lambda>c. if c = old then new else c) s"

definition format_filename :: "str \<Rightarrow> str" where
  "format_filename s =
     (let filename = filter (\<lambda>c. c \<in> set valid_chars) s
      in replace_char (of_char CHR '' '') (of_char CHR ''_'') filename)"

definition run_fingerprint :: "fingerprint \<Rightarrow> world \<Rightarrow> world" where
  "run_fingerprint fp w = w\<lparr>computed := computed w @ [fp]\<rparr>"

definition savefig :: "str \<Rightarrow> fingerprint \<Rightarrow> world \<Rightarrow> world" where
  "savefig path fp w = w\<lparr>artifacts := (artifacts w)(path \<mapsto> Figure fp)\<rparr>"

definition write_data_to_file :: "fingerprint \<Rightarrow> str \<Rightarrow> world \<Rightarrow> world" where
  "write_data_to_file fp filename w = w\<lparr>artifacts := (artifacts w)(filename \<mapsto> Data fp)\<rparr>"

definition obtain_fingerprint :: "strategy \<Rightarrow> int \<Rightarrow> int \<Rightarrow> world \<Rightarrow> world" where
  "obtain_fingerprint s turns repetitions w =
     (let fp = AshlockFingerprint s turns repetitions;
          w1 = run_fingerprint fp w;
          name' = display_name s;
          w2 = savefig (py ''assets/'' @ format_filename name' @ py ''.png'') fp w1
      in write_data_to_file fp (py ''assets/'' @ format_filename name' @ py ''.csv'') w2)"

definition obtain_transitive_fingerprint :: "strategy \<Rightarrow> int \<Rightarrow> int \<Rightarrow> world \<Rightarrow> world" where
  "obtain_transitive_fingerprint s turns repetitions w =
     (let fp = TransitiveFingerprint s turns repetitions;
          w1 = run_fingerprint fp w;
          name' = display_name s;
          w2 = savefig (py ''assets/transitive_'' @ format_filename name' @ py ''.png'') fp w1
      in write_data_to_file fp (py ''assets/transitive_'' @ format_filename name' @ py ''.csv'') w2)"

definition obtain_transitive_fingerprint_v_short ::
    "strategy \<Rightarrow> int \<Rightarrow> int \<Rightarrow> world \<Rightarrow> world" where
  "obtain_transitive_fingerprint_v_short s turns repetitions w =
     (let fp = TransitiveFingerprint_v_short s turns repetitions;
          w1 = run_fingerprint fp w;
          name' = display_name s;
          w2 = savefig (py ''assets/transitive_v_short_'' @ format_filename name' @ py ''.png'')
                 fp w1
      in write_data_to_file fp
           (py ''assets/transitive_v_short_'' @ format_filename name' @ py ''.csv'') w2)"

section \<open>The report\<close>

definition unlines :: "string list \<Rightarrow> str" where
  "unlines ls = concat (map (\<lambda>l. py l @ [LF]) ls)"

fun str_of_nat :: "nat \<Rightarrow> str" where
  "str_of_nat n =
     (if n < 10 then [of_char CHR ''0'' + n]
      else str_of_nat (n div 10) @ [of_char CHR ''0'' + n mod 10])"

declare str_of_nat.simps [simp del]

definition str_of_int :: "int \<Rightarrow> str" where
  "str_of_int i =
     (if i < 0 then of_char CHR ''-'' # str_of_nat (nat (- i)) else str_of_nat (nat i))"

definition write_markdown :: "strategy \<Rightarrow> str" where
  "write_markdown s =
     (let name' = display_name s; file = format_filename name' in
      [LF, LF] @ py ''## '' @ name' @ [LF, LF]
      @ py ''![fingerprint of '' @ name' @ py ''](./assets/'' @ file @ py ''.png)'' @ [LF, LF]
      @ py ''[data (csv)](./assets/'' @ file @ py ''.csv)'' @ [LF, LF]
      @ py ''![Transitive fingerprint of '' @ name' @ py ''](./assets/transitive_'' @ file
      @ py ''.png)'' @ [LF, LF]
      @ py ''[data (csv)](./assets/transitive_'' @ file @ py ''.csv)'' @ [LF, LF]
      @ py ''![Transitive fingerprint of '' @ name'
      @ py '' against short run time](./assets/transitive_v_short_'' @ file @ py ''.png)''
      @ [LF, LF]
      @ py ''[data (csv)](./assets/transitive_v_short_'' @ file @ py ''.csv)'' @ [LF]
      @ py ''    '')"

definition report_header :: "str \<Rightarrow> str \<Rightarrow> int \<Rightarrow> int \<Rightarrow> str" where
  "report_header version axlf_version turns repetitions =
     unlines [''# Ashlock and transitive fingerprints'', [], ''See:'']
     @ py ''[axelrod.readthedocs.io/en/latest/tutorials/further_topics/''
     @ py ''fingerprinting.html#fingerprinting](http://axelrod.readthedocs.io/en/latest/''
     @ py ''tutorials/further_topics/fingerprinting.html#fingerprinting)'' @ [LF, LF]
     @ py ''All strategies included from Axelrod version '' @ version
     @ py '' and all strategies from'' @ [LF]
     @ py ''axelrod_fortran version '' @ axlf_version @ [LF, LF]
     @ unlines [''This README.md file is autogenerated by running:'', [], ''```'',
         ''$ python update_fingerprints.py'', ''```'', [],
         ''Each individual fingerprint can be obtained by running:'', [], ''```python'',
         ''import axelrod as axl'', ''fp = axl.AshlockFingerprint(strategy, probe)'']
     @ py ''fp.fingerprint(turns='' @ str_of_int turns @ py '', repetitions=''
     @ str_of_int repetitions @ py '')'' @ [LF]
     @ unlines [''fp.plot()'', ''```'', [], ''# Axelrod library fingerprints'', []]
     @ py ''    ''"

definition fortran_header :: str where
  "fortran_header =
     [LF, LF] @ unlines [''# Second tournament fortran strategy fingerprints'', []]"

definition write_file :: "str \<Rightarrow> str \<Rightarrow> world \<Rightarrow> world" where
  "write_file filename text w = w\<lparr>files := (files w)(filename \<mapsto> text)\<rparr>"

section \<open>The main pass\<close>

text \<open>
  The libraries as the script sees them: the strategy classes of
  \<open>axl.short_run_time_strategies\<close>, the names of \<open>axlf.all_strategies\<close>, the
  constructor \<open>axlf.Player\<close>, and the two version strings.
\<close>

record library =
  short_run_time_strategies :: "strategy list"
  all_strategies :: "str list"
  Player :: "str \<Rightarrow> strategy"
  version :: str
  axlf_version :: str

text \<open>The test of the three \<open>if\<close> statements of each loop.\<close>

definition stale :: "db \<Rightarrow> str \<Rightarrow> str \<Rightarrow> str \<Rightarrow> bool" where
  "stale db name' fp signature \<longleftrightarrow>
     (name', fp) \<notin> dom db \<or> the (db (name', fp)) \<noteq> signature"

text \<open>
  The three \<open>if\<close> statements. The local variable \<open>strategy\<close> that their branches
  read is \<open>None\<close> while no loop has bound it; reading it then raises.
\<close>

definition update_Ashlock ::
    "db \<Rightarrow> str \<Rightarrow> str \<Rightarrow> strategy option \<Rightarrow> world \<Rightarrow> exn + world" where
  "update_Ashlock db name' signature strategy w =
     (if stale db name' (py ''Ashlock'') signature then
        and_then (local_variable strategy) (\<lambda>s.
          write_strategy_to_db s db_csv (py ''Ashlock'') w)
      else Inr w)"

definition update_Transitive ::
    "db \<Rightarrow> str \<Rightarrow> str \<Rightarrow> strategy option \<Rightarrow> int \<Rightarrow> int \<Rightarrow> world \<Rightarrow> exn + world" where
  "update_Transitive db name' signature strategy turns repetitions w =
     (if stale db name' (py ''Transitive'') signature then
        and_then (local_variable strategy) (\<lambda>s.
          write_strategy_to_db s db_csv (py ''Transitive'')
            (obtain_transitive_fingerprint s turns repetitions w))
      else Inr w)"

definition update_Transitive_v_short ::
    "db \<Rightarrow> str \<Rightarrow> str \<Rightarrow> strategy option \<Rightarrow> int \<Rightarrow> int \<Rightarrow> world \<Rightarrow> exn + world" where
  "update_Transitive_v_short db name' signature strategy turns repetitions w =
     (if stale db name' (py ''Transitive_v_short'') signature then
        and_then (local_variable strategy) (\<lambda>s.
          write_strategy_to_db s db_csv (py ''Transitive_v_short'')
            (obtain_transitive_fingerprint_v_short s turns repetitions w))
      else Inr w)"

text \<open>
  The body of the first loop, over the strategy classes of the library. The state of a
  loop is the world, the report so far and the local variable \<open>strategy\<close>.
\<close>

type_synonym locals = "world \<times> str \<times> strategy option"

definition library_body ::
    "db \<Rightarrow> int \<Rightarrow> int \<Rightarrow> int \<Rightarrow> int \<Rightarrow> strategy \<Rightarrow> locals \<Rightarrow> exn + locals" where
  "library_body db transitive_turns transitive_repetitions
       transitive_v_short_turns transitive_v_short_repetitions s loc =
     (case loc of (w, markdown, previous) \<Rightarrow>
        let strategy = Some s; name' = name s in
        and_then (hash_strategy s) (\<lambda>signature.
        and_then (update_Ashlock db name' signature strategy w) (\<lambda>w1.
        and_then (update_Transitive db name' signature strategy
                    transitive_turns transitive_repetitions w1) (\<lambda>w2.
        and_then (update_Transitive_v_short db name' signature strategy
                    transitive_v_short_turns transitive_v_short_repetitions w2) (\<lambda>w3.
        Inr (w3, markdown @ write_markdown s, strategy))))))"

text \<open>
  The body of the second loop, over the names of the Fortran strategies. The test is
  on the player; the branches and the report section read the variable \<open>strategy\<close>,
  which this loop does not bind, and the third branch passes the turns and repetitions
  of the second.
\<close>

definition fortran_body ::
    "library \<Rightarrow> db \<Rightarrow> int \<Rightarrow> int \<Rightarrow> str \<Rightarrow> locals \<Rightarrow> exn + locals" where
  "fortran_body lib db transitive_turns transitive_repetitions name0 loc =
     (case loc of (w, markdown, strategy) \<Rightarrow>
        let player = Player lib name0 in
        and_then (attribute (original_name player)) (\<lambda>name'.
        and_then (hash_strategy player) (\<lambda>signature.
        and_then (update_Ashlock db name' signature strategy w) (\<lambda>w1.
        and_then (update_Transitive db name' signature strategy
                    transitive_turns transitive_repetitions w1) (\<lambda>w2.
        and_then (update_Transitive_v_short db name' signature strategy
                    transitive_turns transitive_repetitions w2) (\<lambda>w3.
        and_then (local_variable strategy) (\<lambda>s.
        Inr (w3, markdown @ write_markdown s, strategy))))))))"

primrec for_each ::
    "('a \<Rightarrow> locals \<Rightarrow> exn + locals) \<Rightarrow> 'a list \<Rightarrow> locals \<Rightarrow> exn + locals" where
  "for_each body [] loc = Inr loc"
| "for_each body (x # xs) loc =
     (case body x loc of Inl e \<Rightarrow> Inl e | Inr loc' \<Rightarrow> for_each body xs loc')"

text \<open>The \<open>try\<close> statement that opens the cache.\<close>

definition open_db :: "world \<Rightarrow> exn + db \<times> world" where
  "open_db w =
     (case read_db db_csv w of
        Inr db \<Rightarrow> Inr (db, w)
      | Inl FileNotFoundError \<Rightarrow>
          (let w' = create_db db_csv w in
           case read_db db_csv w' of Inl e \<Rightarrow> Inl e | Inr db \<Rightarrow> Inr (db, w'))
      | Inl e \<Rightarrow> Inl e)"

definition main ::
    "library \<Rightarrow> int \<Rightarrow> int \<Rightarrow> int \<Rightarrow> int \<Rightarrow> int \<Rightarrow> int \<Rightarrow> world \<Rightarrow> exn + world" where
  "main lib turns repetitions transitive_turns transitive_repetitions
       transitive_v_short_turns transitive_v_short_repetitions w =
     (let markdown = report_header (version lib) (axlf_version lib) turns repetitions in
      and_then (open_db w) (\<lambda>(db, w0).
      and_then (for_each
                  (library_body db transitive_turns transitive_repetitions
                     transitive_v_short_turns transitive_v_short_repetitions)
                  (short_run_time_strategies lib) (w0, markdown, None))
        (\<lambda>(w1, markdown1, strategy).
      and_then (for_each (fortran_body lib db transitive_turns transitive_repetitions)
                  (all_strategies lib) (w1, markdown1 @ fortran_header, strategy))
        (\<lambda>(w2, markdown2, strategy).
      and_then (encoded markdown2) (\<lambda>report.
      Inr (write_file (py ''README.md'') report w2))))))"

section \<open>The properties as the specification words them\<close>

text \<open>
  The allowed set of the file name transform: ASCII letters, digits and \<open>-_.()\<close>. The
  transform as the specification describes it: a space becomes an underscore, a
  character of the allowed set stays, any other character goes.
\<close>

definition allowed_chars :: str where
  "allowed_chars = py ''-_.()'' @ ascii_letters @ digits"

primrec sanitize :: "str \<Rightarrow> str" where
  "sanitize [] = []"
| "sanitize (c # cs) =
     (if c = of_char CHR '' '' then of_char CHR ''_'' # sanitize cs
      else if c \<in> set allowed_chars then c # sanitize cs
      else sanitize cs)"

text \<open>
  What the dictionary comprehension of \<open>read_db\<close> does with one row, and the rows of the
  cache as \<open>write_strategy_to_db\<close> writes them: a row is a name, a kind and a hash;
  \<open>db_line\<close> is its line in the file and \<open>row_list\<close> the list of its fields.
\<close>

definition store_row :: "str list \<Rightarrow> db \<Rightarrow> db" where
  "store_row r m = m((r ! 0, r ! 1) \<mapsto> r ! 2)"

fun db_line :: "str \<times> str \<times> str \<Rightarrow> str" where
  "db_line (n, k, h) = n @ py '','' @ k @ py '','' @ h @ [LF]"

fun row_list :: "str \<times> str \<times> str \<Rightarrow> str list" where
  "row_list (n, k, h) = [n, k, h]"

text \<open>
  A plain field is one that the reader gives back as it was written: it has no comma
  and no line break, does not begin with a double quote, and is within the field size
  limit.
\<close>

definition plain_field :: "str \<Rightarrow> bool" where
  "plain_field f \<longleftrightarrow>
     length f \<le> field_limit \<and> (\<forall>c\<in>set f. c \<noteq> delimiter \<and> c \<noteq> LF \<and> c \<noteq> CR)
     \<and> (f \<noteq> [] \<longrightarrow> hd f \<noteq> quotechar)"

fun plain_row :: "str \<times> str \<times> str \<Rightarrow> bool" where
  "plain_row (n, k, h) \<longleftrightarrow> plain_field n \<and> plain_field k \<and> plain_field h"

text \<open>The MD5 hex digest of a text: that of its UTF-8 bytes, when it has them.\<close>

definition md5_of_text :: "str \<Rightarrow> exn + str" where
  "md5_of_text t = and_then (encode_utf8 t) (\<lambda>bytes. Inr (md5_hexdigest bytes))"

text \<open>Text that UTF-8 can encode: it has no surrogate code point.\<close>

definition encodable :: "str \<Rightarrow> bool" where
  "encodable t \<longleftrightarrow> (\<forall>c\<in>set t. \<not> (0xD800 \<le> c \<and> c \<le> 0xDFFF))"

text \<open>
  The text of a file, empty when the file is missing; and writing the entries of a
  cache, one after the other, with \<open>write_strategy_to_db\<close>.
\<close>

definition file_text :: "world \<Rightarrow> str \<Rightarrow> str" where
  "file_text w filename = (case files w filename of None \<Rightarrow> [] | Some t \<Rightarrow> t)"

primrec write_entries :: "(strategy \<times> str) list \<Rightarrow> str \<Rightarrow> world \<Rightarrow> exn + world" where
  "write_entries [] filename w = Inr w"
| "write_entries (e # es) filename w =
     and_then (write_strategy_to_db (fst e) filename (snd e) w) (write_entries es filename)"

text \<open>An entry with its hash, as the row that is written for it.\<close>

fun entry_row :: "(strategy \<times> str) \<times> str \<Rightarrow> str \<times> str \<times> str" where
  "entry_row ((s, fp), h) = (display_name s, fp, h)"

text \<open>
  The three kinds of fingerprint, and the hash of a strategy as a plain value (the empty
  text when \<open>hash_strategy\<close> raises).
\<close>

definition kinds :: "str list" where
  "kinds = [py ''Ashlock'', py ''Transitive'', py ''Transitive_v_short'']"

definition hash_of :: "strategy \<Rightarrow> str" where
  "hash_of s = (case hash_strategy s of Inr h \<Rightarrow> h | Inl e \<Rightarrow> [])"

text \<open>
  What a run does to the cache file and to the list of computations: from \<open>w\<close> to \<open>w'\<close>
  the lines of \<open>rows\<close> are appended to the cache file, which stays in place, and the
  fingerprints \<open>fps\<close> are computed.
\<close>

definition effect :: "world \<Rightarrow> world \<Rightarrow> (str \<times> str \<times> str) list \<Rightarrow> fingerprint list \<Rightarrow> bool" where
  "effect w w' rows fps \<longleftrightarrow>
     file_text w' db_csv = file_text w db_csv @ concat (map db_line rows)
     \<and> (files w db_csv \<noteq> None \<longrightarrow> files w' db_csv \<noteq> None)
     \<and> computed w' = computed w @ fps"

text \<open>
  The rows that the three \<open>if\<close> statements write and the fingerprints that they
  compute when the cache entry tested is that of the name \<open>name'\<close>, the fresh hash is
  \<open>signature\<close> and the branches work on the strategy \<open>s\<close>: one row, and for the two
  transitive kinds one fingerprint, for each kind whose stored hash (none when there
  is no entry) differs from the fresh hash. Then the same for the first loop, where the
  strategy tested is the strategy worked on, and for the second loop, where the player is
  tested and the last strategy of the first loop is worked on.
\<close>

definition rows_written :: "db \<Rightarrow> str \<Rightarrow> str \<Rightarrow> strategy \<Rightarrow> (str \<times> str \<times> str) list" where
  "rows_written db name' signature s =
     map (\<lambda>k. (display_name s, k, hash_of s))
       (filter (\<lambda>k. db (name', k) \<noteq> Some signature) kinds)"

definition fingerprints_run ::
    "db \<Rightarrow> str \<Rightarrow> str \<Rightarrow> strategy \<Rightarrow> int \<Rightarrow> int \<Rightarrow> int \<Rightarrow> int \<Rightarrow> fingerprint list" where
  "fingerprints_run db name' signature s tt tr vt vr =
     (if db (name', py ''Transitive'') \<noteq> Some signature then [TransitiveFingerprint s tt tr]
      else [])
     @ (if db (name', py ''Transitive_v_short'') \<noteq> Some signature
        then [TransitiveFingerprint_v_short s vt vr] else [])"

definition library_rows :: "library \<Rightarrow> db \<Rightarrow> (str \<times> str \<times> str) list" where
  "library_rows lib db =
     concat (map (\<lambda>s. rows_written db (name s) (hash_of s) s) (short_run_time_strategies lib))"

definition fortran_rows :: "library \<Rightarrow> db \<Rightarrow> (str \<times> str \<times> str) list" where
  "fortran_rows lib db =
     (if short_run_time_strategies lib = [] then []
      else concat (map (\<lambda>n0. rows_written db (display_name (Player lib n0))
                           (hash_of (Player lib n0)) (last (short_run_time_strategies lib)))
                    (all_strategies lib)))"

definition library_fingerprints ::
    "library \<Rightarrow> db \<Rightarrow> int \<Rightarrow> int \<Rightarrow> int \<Rightarrow> int \<Rightarrow> fingerprint list" where
  "library_fingerprints lib db tt tr vt vr =
     concat (map (\<lambda>s. fingerprints_run db (name s) (hash_of s) s tt tr vt vr)
               (short_run_time_strategies lib))"

definition fortran_fingerprints :: "library \<Rightarrow> db \<Rightarrow> int \<Rightarrow> int \<Rightarrow> fingerprint list" where
  "fortran_fingerprints lib db tt tr =
     (if short_run_time_strategies lib = [] then []
      else concat (map (\<lambda>n0. fingerprints_run db (display_name (Player lib n0))
                           (hash_of (Player lib n0)) (last (short_run_time_strategies lib))
                           tt tr tt tr)
                    (all_strategies lib)))"

section \<open>Example inputs\<close>

text \<open>
  A strategy class whose source is the text \<open>abc\<close>, and a Fortran player: an instance,
  on which \<open>inspect.getsourcelines\<close> raises \<open>TypeError\<close>, with the original name
  \<open>k31r\<close>.
\<close>

definition example_strategy :: strategy where
  "example_strategy =
     \<lparr>name = py ''Tit For Tat'', original_name = None,
      getsourcelines = Inr [py ''abc''], strategy_getsourcelines = Some (Inr [])\<rparr>"

definition example_player :: strategy where
  "example_player =
     \<lparr>name = py ''k31r'', original_name = Some (py ''k31r''),
      getsourcelines = Inl TypeError, strategy_getsourcelines = Some (Inl TypeError)\<rparr>"

text \<open>A class created at run time: its own source is not found, that of its method is.\<close>

definition example_dynamic :: strategy where
  "example_dynamic =
     \<lparr>name = py ''Dual Tit For Tat'', original_name = None,
      getsourcelines = Inl OSError, strategy_getsourcelines = Some (Inr [py ''abc''])\<rparr>"

text \<open>
  Two objects whose fallback fails although they have an \<open>original_name\<close>: one has no
  \<open>strategy\<close> attribute, the other has one that cannot be introspected. And an object
  whose introspection raises an error that \<open>hash_strategy\<close> does not catch.
\<close>

definition example_no_strategy_attribute :: strategy where
  "example_no_strategy_attribute =
     \<lparr>name = py ''Dual'', original_name = Some (py ''k31r''),
      getsourcelines = Inl OSError, strategy_getsourcelines = None\<rparr>"

definition example_opaque_strategy_attribute :: strategy where
  "example_opaque_strategy_attribute =
     \<lparr>name = py ''Dual'', original_name = Some (py ''k31r''),
      getsourcelines = Inl FileNotFoundError, strategy_getsourcelines = Some (Inl TypeError)\<rparr>"

definition example_uncaught :: strategy where
  "example_uncaught =
     \<lparr>name = py ''Dual'', original_name = Some (py ''k31r''),
      getsourcelines = Inl IndexError, strategy_getsourcelines = Some (Inr [py ''abc''])\<rparr>"

definition example_nameless_player :: strategy where
  "example_nameless_player =
     \<lparr>name = py ''k31r'', original_name = None,
      getsourcelines = Inl TypeError, strategy_getsourcelines = Some (Inr [py ''abc''])\<rparr>"

text \<open>
  A cache file in which the Ashlock entry of one strategy was written twice, first with
  the hash of the empty text and then with the hash of \<open>abc\<close>, followed by its
  Transitive entry.
\<close>

definition rewritten_rows :: "(str \<times> str \<times> str) list" where
  "rewritten_rows =
     [(py ''Tit For Tat'', py ''Ashlock'', py ''d41d8cd98f00b204e9800998ecf8427e''),
      (py ''Tit For Tat'', py ''Ashlock'', py ''900150983cd24fb0d6963f7d28e17f72''),
      (py ''Tit For Tat'', py ''Transitive'', py ''900150983cd24fb0d6963f7d28e17f72'')]"

definition rewritten_world :: world where
  "rewritten_world =
     \<lparr>files = [db_csv \<mapsto> concat (map db_line rewritten_rows)], artifacts = Map.empty,
      computed = []\<rparr>"

text \<open>
  The world with no file at all; a cache file that ends with a blank line; and a
  strategy whose name has a comma.
\<close>

definition empty_world :: world where
  "empty_world = \<lparr>files = Map.empty, artifacts = Map.empty, computed = []\<rparr>"

definition blank_line_world :: world where
  "blank_line_world =
     \<lparr>files = [db_csv \<mapsto>
        db_line (py ''Tit For Tat'', py ''Ashlock'', py ''900150983cd24fb0d6963f7d28e17f72'')
        @ [LF]],
      artifacts = Map.empty, computed = []\<rparr>"

definition comma_strategy :: strategy where
  "comma_strategy =
     \<lparr>name = py ''Tit, Tat'', original_name = None,
      getsourcelines = Inr [py ''abc''], strategy_getsourcelines = Some (Inr [])\<rparr>"

text \<open>
  The Fortran wrapper's players, a library of one strategy class and one Fortran
  strategy, the same library without the Fortran strategy, and a world whose cache file
  holds the three entries of the strategy class with its current hash.
\<close>

definition fortran_player :: "str \<Rightarrow> strategy" where
  "fortran_player n =
     \<lparr>name = n, original_name = Some n, getsourcelines = Inl TypeError,
      strategy_getsourcelines = Some (Inl TypeError)\<rparr>"

definition example_library :: library where
  "example_library =
     \<lparr>short_run_time_strategies = [example_strategy], all_strategies = [py ''k31r''],
      Player = fortran_player, version = py ''4.13.0'', axlf_version = py ''0.4.6''\<rparr>"

definition library_only :: library where
  "library_only = example_library\<lparr>all_strategies := []\<rparr>"

definition cached_rows :: "(str \<times> str \<times> str) list" where
  "cached_rows =
     [(py ''Tit For Tat'', py ''Ashlock'', py ''900150983cd24fb0d6963f7d28e17f72''),
      (py ''Tit For Tat'', py ''Transitive'', py ''900150983cd24fb0d6963f7d28e17f72''),
      (py ''Tit For Tat'', py ''Transitive_v_short'', py ''900150983cd24fb0d6963f7d28e17f72'')]"

definition cached_world :: world where
  "cached_world =
     \<lparr>files = [db_csv \<mapsto> concat (map db_line cached_rows)], artifacts = Map.empty,
      computed = []\<rparr>"

section \<open>Text that can be written\<close>

lemma and_then_Inr: "and_then m f = Inr y \<longleftrightarrow> (\<exists>x. m = Inr x \<and> f x = Inr y)"
  by (cases m) (simp_all add: and_then_def)

lemma encode_char_Inr:
  "\<not> (0xD800 \<le> c \<and> c \<le> 0xDFFF) \<Longrightarrow> \<exists>b. encode_char c = Inr b"
  by (auto simp: encode_char_def)

lemma encode_char_Inl: "0xD800 \<le> c \<and> c \<le> 0xDFFF \<Longrightarrow> encode_char c = Inl UnicodeEncodeError"
  by (simp add: encode_char_def)

lemma encode_utf8_cases:
  "(encodable t \<longrightarrow> (\<exists>b. encode_utf8 t = Inr b))
   \<and> (\<not> encodable t \<longrightarrow> encode_utf8 t = Inl UnicodeEncodeError)"
proof (induction t)
  case Nil
  then show ?case by (simp add: encodable_def)
next
  case (Cons c t)
  show ?case
  proof (cases "0xD800 \<le> c \<and> c \<le> 0xDFFF")
    case True
    then show ?thesis
      by (simp add: encodable_def encode_char_Inl)
  next
    case False
    from encode_char_Inr [OF this] obtain b where "encode_char c = Inr b"
      by blast
    with False Cons show ?thesis
      by (auto simp: encodable_def)
  qed
qed

lemma encoded_eq: "encoded t = (if encodable t then Inr t else Inl UnicodeEncodeError)"
  using encode_utf8_cases [of t] by (auto simp: encoded_def and_then_def)

lemma encodable_Nil: "encodable []"
  by (simp add: encodable_def)

lemma encodable_Cons: "encodable (c # t) \<longleftrightarrow> \<not> (0xD800 \<le> c \<and> c \<le> 0xDFFF) \<and> encodable t"
  by (simp add: encodable_def)

lemma encodable_append: "encodable (a @ b) \<longleftrightarrow> encodable a \<and> encodable b"
  by (auto simp: encodable_def)

lemma encodable_small: "\<forall>c\<in>set t. c < 256 \<Longrightarrow> encodable t"
  by (fastforce simp: encodable_def)

lemma encodable_py: "encodable (py s)"
  by (rule encodable_small) (auto simp: py_def)

lemma encodable_LF: "encodable [LF]"
  by (simp add: encodable_def LF_def)

section \<open>The hash of a strategy\<close>

lemma length_le_bytes: "length (le_bytes k w) = k"
  by (simp add: le_bytes_def)

lemma length_md5_digest: "length (md5_digest m) = 16"
  by (simp add: md5_digest_def length_le_bytes split: prod.splits)

lemma length_hexdigits: "length hexdigits = 16"
  by (simp add: hexdigits_def py_def)

lemma hex_byte_digits: "length (hex_byte b) = 2 \<and> set (hex_byte b) \<subseteq> set hexdigits"
proof -
  have "unat b < 256"
    using unsigned_less [of b] by simp
  then have "unat b div 16 < 16"
    by simp
  moreover have "unat b mod 16 < 16"
    by simp
  ultimately show ?thesis
    by (simp add: hex_byte_def length_hexdigits)
qed

lemma concat_hex_byte:
  "length (concat (map hex_byte bs)) = 2 * length bs
   \<and> set (concat (map hex_byte bs)) \<subseteq> set hexdigits"
  using hex_byte_digits by (induction bs) auto

lemma md5_hexdigest_digits:
  "length (md5_hexdigest m) = 32 \<and> set (md5_hexdigest m) \<subseteq> set hexdigits"
  using concat_hex_byte [of "md5_digest m"]
  by (simp add: md5_hexdigest_def length_md5_digest)

text \<open>The digests of two known inputs, as \<open>hashlib\<close> gives them.\<close>

lemma md5_hexdigest_empty: "md5_hexdigest [] = py ''d41d8cd98f00b204e9800998ecf8427e''"
  by code_simp

lemma md5_hexdigest_abc:
  "md5_hexdigest [0x61, 0x62, 0x63] = py ''900150983cd24fb0d6963f7d28e17f72''"
  by code_simp

lemma md5_hexdigest_k31r:
  "md5_hexdigest [0x6B, 0x33, 0x31, 0x72] = py ''b880b20fcd0798fdd402e11dbdc9fa9f''"
  by code_simp

lemma hash_example_strategy:
  "hash_strategy example_strategy = Inr (py ''900150983cd24fb0d6963f7d28e17f72'')"
  by (simp add: hash_strategy_def source_code_def is_OSError_def example_strategy_def and_then_def join_def
      encode_char_def md5_hexdigest_abc py_def)

lemma hash_example_player:
  "hash_strategy example_player = Inr (py ''b880b20fcd0798fdd402e11dbdc9fa9f'')"
  by (simp add: hash_strategy_def source_code_def is_OSError_def example_player_def and_then_def join_def
      attribute_def encode_char_def md5_hexdigest_k31r py_def)

lemma hash_comma_strategy:
  "hash_strategy comma_strategy = Inr (py ''900150983cd24fb0d6963f7d28e17f72'')"
  by (simp add: hash_strategy_def source_code_def is_OSError_def comma_strategy_def
      and_then_def join_def encode_char_def md5_hexdigest_abc py_def)

text \<open>
  Claim C10. When \<open>hash_strategy\<close> returns, its result has 32 characters, all of them
  lowercase hexadecimal digits; and two strategies from which the same source text is
  extracted get the same hash.
\<close>

theorem hash_strategy_hexdigest:
  "(hash_strategy s = Inr h \<longrightarrow> length h = 32 \<and> set h \<subseteq> set (py ''0123456789abcdef''))
   \<and> (snd (source_code s) = Inr t \<and> snd (source_code s') = Inr t
        \<longrightarrow> hash_strategy s = hash_strategy s')"
proof -
  have "length h = 32 \<and> set h \<subseteq> set hexdigits" if "hash_strategy s = Inr h"
  proof -
    from that obtain b where "h = md5_hexdigest b"
      by (auto simp: hash_strategy_def and_then_def split: sum.splits)
    then show ?thesis
      by (simp add: md5_hexdigest_digits)
  qed
  then show ?thesis
    by (simp add: hash_strategy_def hexdigits_def)
qed

theorem hash_strategy_hexdigest_witness:
  "hash_strategy example_strategy = Inr (py ''900150983cd24fb0d6963f7d28e17f72'')
   \<and> length (py ''900150983cd24fb0d6963f7d28e17f72'') = 32
   \<and> set (py ''900150983cd24fb0d6963f7d28e17f72'') \<subseteq> set (py ''0123456789abcdef'')
   \<and> snd (source_code example_strategy) = Inr (py ''abc'')
   \<and> snd (source_code example_dynamic) = Inr (py ''abc'')
   \<and> hash_strategy example_strategy = hash_strategy example_dynamic"
proof -
  have a: "snd (source_code example_strategy) = Inr (py ''abc'')"
    by (simp add: source_code_def is_OSError_def example_strategy_def join_def)
  have b: "snd (source_code example_dynamic) = Inr (py ''abc'')"
    by (simp add: source_code_def is_OSError_def example_dynamic_def join_def and_then_def
        attribute_def)
  show ?thesis
    using hash_strategy_hexdigest
      [of example_strategy "py ''900150983cd24fb0d6963f7d28e17f72''" "py ''abc''"
        example_dynamic]
      hash_example_strategy a b
    by simp
qed

text \<open>
  Claim C7. What \<open>hash_strategy\<close> returns is the MD5 hex digest of the UTF-8 bytes of
  the text it found. The text is the source of the object itself when introspection
  succeeds. When introspection raises \<open>OSError\<close> (or a subclass), the one further lookup
  is the source of the \<open>strategy\<close> attribute: its source is the text that is hashed, and
  when the attribute is missing or its introspection raises, that error is the outcome
  of \<open>hash_strategy\<close>, whether or not the object has an \<open>original_name\<close>. When
  introspection raises \<open>TypeError\<close>, the one further lookup is the \<open>original_name\<close>
  attribute: its characters are the text that is hashed, and when the attribute is
  missing \<open>hash_strategy\<close> raises \<open>AttributeError\<close>, whether or not the object has a
  \<open>strategy\<close> attribute. Any other error of the introspection is the outcome of
  \<open>hash_strategy\<close>.
\<close>

theorem hash_strategy_fallbacks:
  "(hash_strategy s = Inr h \<longrightarrow>
      (\<exists>t b. snd (source_code s) = Inr t \<and> encode_utf8 t = Inr b \<and> h = md5_hexdigest b))
   \<and> (getsourcelines s = Inr lines \<longrightarrow>
        source_code s = ([Source_of_object], Inr (concat lines))
        \<and> hash_strategy s = md5_of_text (concat lines))
   \<and> (getsourcelines s = Inl e \<and> is_OSError e \<longrightarrow>
        fst (source_code s) = [Source_of_object, Source_of_strategy_attribute]
        \<and> (strategy_getsourcelines s = Some (Inr lines) \<longrightarrow>
             snd (source_code s) = Inr (concat lines)
             \<and> hash_strategy s = md5_of_text (concat lines))
        \<and> (strategy_getsourcelines s = Some (Inl e') \<longrightarrow> hash_strategy s = Inl e')
        \<and> (strategy_getsourcelines s = None \<longrightarrow> hash_strategy s = Inl AttributeError))
   \<and> (getsourcelines s = Inl TypeError \<longrightarrow>
        fst (source_code s) = [Source_of_object, Original_name_attribute]
        \<and> (original_name s = Some n \<longrightarrow>
             snd (source_code s) = Inr n \<and> hash_strategy s = md5_of_text n)
        \<and> (original_name s = None \<longrightarrow> hash_strategy s = Inl AttributeError))
   \<and> (getsourcelines s = Inl e \<and> \<not> is_OSError e \<and> e \<noteq> TypeError \<longrightarrow>
        source_code s = ([Source_of_object], Inl e) \<and> hash_strategy s = Inl e)"
proof -
  have "concat (map (\<lambda>c. [c]) n) = n"
    by (induction n) auto
  then show ?thesis
    by (auto simp: hash_strategy_def source_code_def is_OSError_def and_then_def attribute_def
        join_def md5_of_text_def split: sum.splits)
qed

theorem hash_strategy_fallbacks_witness:
  "hash_strategy example_player = Inr (py ''b880b20fcd0798fdd402e11dbdc9fa9f'')
   \<and> getsourcelines example_player = Inl TypeError
   \<and> original_name example_player = Some (py ''k31r'')
   \<and> source_code example_player
       = ([Source_of_object, Original_name_attribute], Inr (py ''k31r''))
   \<and> encode_utf8 (py ''k31r'') = Inr [0x6B, 0x33, 0x31, 0x72]
   \<and> py ''b880b20fcd0798fdd402e11dbdc9fa9f'' = md5_hexdigest [0x6B, 0x33, 0x31, 0x72]
   \<and> getsourcelines example_dynamic = Inl OSError
   \<and> strategy_getsourcelines example_dynamic = Some (Inr [py ''abc''])
   \<and> source_code example_dynamic
       = ([Source_of_object, Source_of_strategy_attribute], Inr (py ''abc''))
   \<and> hash_strategy example_dynamic = Inr (py ''900150983cd24fb0d6963f7d28e17f72'')
   \<and> getsourcelines example_strategy = Inr [py ''abc'']
   \<and> source_code example_strategy = ([Source_of_object], Inr (py ''abc''))
   \<and> getsourcelines example_no_strategy_attribute = Inl OSError
   \<and> strategy_getsourcelines example_no_strategy_attribute = None
   \<and> original_name example_no_strategy_attribute = Some (py ''k31r'')
   \<and> hash_strategy example_no_strategy_attribute = Inl AttributeError
   \<and> getsourcelines example_opaque_strategy_attribute = Inl FileNotFoundError
   \<and> is_OSError FileNotFoundError
   \<and> strategy_getsourcelines example_opaque_strategy_attribute = Some (Inl TypeError)
   \<and> original_name example_opaque_strategy_attribute = Some (py ''k31r'')
   \<and> hash_strategy example_opaque_strategy_attribute = Inl TypeError
   \<and> getsourcelines example_nameless_player = Inl TypeError
   \<and> original_name example_nameless_player = None
   \<and> strategy_getsourcelines example_nameless_player = Some (Inr [py ''abc''])
   \<and> hash_strategy example_nameless_player = Inl AttributeError
   \<and> getsourcelines example_uncaught = Inl IndexError
   \<and> \<not> is_OSError IndexError \<and> IndexError \<noteq> TypeError
   \<and> hash_strategy example_uncaught = Inl IndexError"
proof -
  have a: "getsourcelines example_player = Inl TypeError"
    and b: "original_name example_player = Some (py ''k31r'')"
    by (simp_all add: example_player_def)
  have c: "encode_utf8 (py ''k31r'') = Inr [0x6B, 0x33, 0x31, 0x72]"
    by (simp add: py_def encode_char_def)
  have d: "getsourcelines example_dynamic = Inl OSError"
    and e: "strategy_getsourcelines example_dynamic = Some (Inr [py ''abc''])"
    by (simp_all add: example_dynamic_def)
  have f: "getsourcelines example_strategy = Inr [py ''abc'']"
    by (simp add: example_strategy_def)
  have g: "getsourcelines example_no_strategy_attribute = Inl OSError"
    "strategy_getsourcelines example_no_strategy_attribute = None"
    "original_name example_no_strategy_attribute = Some (py ''k31r'')"
    by (simp_all add: example_no_strategy_attribute_def)
  have h: "getsourcelines example_opaque_strategy_attribute = Inl FileNotFoundError"
    "strategy_getsourcelines example_opaque_strategy_attribute = Some (Inl TypeError)"
    "original_name example_opaque_strategy_attribute = Some (py ''k31r'')"
    by (simp_all add: example_opaque_strategy_attribute_def)
  have i: "getsourcelines example_nameless_player = Inl TypeError"
    "original_name example_nameless_player = None"
    "strategy_getsourcelines example_nameless_player = Some (Inr [py ''abc''])"
    by (simp_all add: example_nameless_player_def)
  have j: "getsourcelines example_uncaught = Inl IndexError"
    by (simp add: example_uncaught_def)
  have os: "is_OSError OSError" "is_OSError FileNotFoundError" "\<not> is_OSError IndexError"
    by (simp_all add: is_OSError_def)
  have abc: "md5_of_text (py ''abc'') = Inr (py ''900150983cd24fb0d6963f7d28e17f72'')"
    using md5_hexdigest_abc by (simp add: md5_of_text_def py_def encode_char_def and_then_def)
  have 1: "source_code example_player
      = ([Source_of_object, Original_name_attribute], Inr (py ''k31r''))"
    using hash_strategy_fallbacks
      [of example_player "py ''b880b20fcd0798fdd402e11dbdc9fa9f''" "[]" TypeError TypeError
        "py ''k31r''"] a b
    by (simp add: prod_eq_iff)
  have 2: "source_code example_dynamic
        = ([Source_of_object, Source_of_strategy_attribute], Inr (py ''abc''))
      \<and> hash_strategy example_dynamic = Inr (py ''900150983cd24fb0d6963f7d28e17f72'')"
    using hash_strategy_fallbacks [of example_dynamic _ "[py ''abc'']" OSError] d e os(1) abc
    by (simp add: prod_eq_iff)
  have 3: "source_code example_strategy = ([Source_of_object], Inr (py ''abc''))"
    using hash_strategy_fallbacks [of example_strategy _ "[py ''abc'']"] f
    by simp
  have 4: "hash_strategy example_no_strategy_attribute = Inl AttributeError"
    using hash_strategy_fallbacks [of example_no_strategy_attribute _ _ OSError] g os(1)
    by simp
  have 5: "hash_strategy example_opaque_strategy_attribute = Inl TypeError"
    using hash_strategy_fallbacks
      [of example_opaque_strategy_attribute _ _ FileNotFoundError TypeError] h os(2)
    by simp
  have 6: "hash_strategy example_nameless_player = Inl AttributeError"
    using hash_strategy_fallbacks [of example_nameless_player] i
    by simp
  have 7: "hash_strategy example_uncaught = Inl IndexError"
    using hash_strategy_fallbacks [of example_uncaught _ _ IndexError] j os(3)
    by simp
  from 1 2 3 4 5 6 7 a b c d e f g h i j os hash_example_player md5_hexdigest_k31r
  show ?thesis
    by simp
qed

section \<open>The file name transform\<close>

lemma valid_chars_iff: "c \<in> set valid_chars \<longleftrightarrow> c = 32 \<or> c \<in> set allowed_chars"
  by (auto simp: valid_chars_def allowed_chars_def py_def)

lemma underscore_allowed: "(95::nat) \<in> set allowed_chars"
  by (simp add: allowed_chars_def py_def)

lemma space_not_allowed: "(32::nat) \<notin> set allowed_chars"
  by (simp add: allowed_chars_def py_def ascii_letters_def digits_def)

lemma format_filename_sanitize: "format_filename s = sanitize s"
  by (induction s)
    (auto simp: format_filename_def replace_char_def valid_chars_iff space_not_allowed)

lemma set_sanitize: "set (sanitize s) \<subseteq> set allowed_chars"
  by (induction s) (auto simp: underscore_allowed)

lemma sanitize_fixed: "set t \<subseteq> set allowed_chars \<Longrightarrow> sanitize t = t"
  by (induction t) (auto simp: space_not_allowed)

text \<open>
  Claim C4. \<open>format_filename\<close> is idempotent; its result has only characters of the
  allowed set (ASCII letters, digits and \<open>-_.()\<close>); and it is the transform that turns
  every space into an underscore, keeps every character of the allowed set and removes
  every other character.
\<close>

theorem format_filename_idempotent:
  "format_filename (format_filename s) = format_filename s
   \<and> set (format_filename s) \<subseteq> set (py ''-_.()'' @ ascii_letters @ digits)
   \<and> format_filename s = sanitize s"
  using set_sanitize [of s] sanitize_fixed [of "sanitize s"]
  by (simp add: format_filename_sanitize allowed_chars_def)

theorem format_filename_idempotent_witness:
  "format_filename (py ''Tit For Tat: 0.5 (a/b)!'') = py ''Tit_For_Tat_0.5_(ab)''
   \<and> format_filename (py ''Tit_For_Tat_0.5_(ab)'') = py ''Tit_For_Tat_0.5_(ab)''
   \<and> sanitize (py ''Tit For Tat: 0.5 (a/b)!'') = py ''Tit_For_Tat_0.5_(ab)''"
proof -
  let ?s = "py ''Tit For Tat: 0.5 (a/b)!''"
  have e: "format_filename ?s = py ''Tit_For_Tat_0.5_(ab)''"
    by (simp add: format_filename_def replace_char_def valid_chars_def ascii_letters_def
        digits_def py_def)
  from format_filename_idempotent [of ?s]
  have i: "format_filename (format_filename ?s) = format_filename ?s"
    and r: "format_filename ?s = sanitize ?s"
    by blast+
  from i have "format_filename (py ''Tit_For_Tat_0.5_(ab)'') = py ''Tit_For_Tat_0.5_(ab)''"
    unfolding e .
  moreover from r have "sanitize ?s = py ''Tit_For_Tat_0.5_(ab)''"
    unfolding e by (rule sym)
  ultimately show ?thesis
    using e by blast
qed

section \<open>Reading the cache\<close>

lemma store_row_Cons: "store_row (r0 # r1 # r2 # others) m = m((r0, r1) \<mapsto> r2)"
  by (simp add: store_row_def)

lemma dict_of_rows_map_Inr:
  "\<forall>r\<in>set rows. 3 \<le> length r \<Longrightarrow>
   dict_of_rows (map Inr rows) acc = Inr (fold store_row rows acc)"
proof (induction rows arbitrary: acc)
  case Nil
  then show ?case by simp
next
  case (Cons r rows)
  from Cons.prems obtain r0 r1 r2 others where r: "r = r0 # r1 # r2 # others"
    by (cases r; cases "tl r"; cases "tl (tl r)") auto
  with Cons show ?case
    by (simp add: store_row_Cons)
qed

lemma dict_of_rows_Inr:
  "dict_of_rows outs acc = Inr db \<Longrightarrow>
   \<exists>rows. outs = map Inr rows \<and> (\<forall>r\<in>set rows. 3 \<le> length r) \<and> db = fold store_row rows acc"
proof (induction outs acc rule: dict_of_rows.induct)
  case (1 str_to_hash)
  then show ?case by simp
next
  case (2 e rest str_to_hash)
  then show ?case by simp
next
  case (3 r0 r1 r2 others rest str_to_hash)
  from "3.prems" have "dict_of_rows rest (str_to_hash((r0, r1) \<mapsto> r2)) = Inr db"
    by simp
  from "3.IH" [OF this] obtain rows where "rest = map Inr rows"
    "\<forall>r\<in>set rows. 3 \<le> length r"
    "db = fold store_row rows (str_to_hash((r0, r1) \<mapsto> r2))"
    by blast
  then show ?case
    by (intro exI [of _ "(r0 # r1 # r2 # others) # rows"]) (simp add: store_row_Cons)
qed simp_all

lemma fold_store_row_other:
  "\<forall>r\<in>set rows. (r ! 0, r ! 1) \<noteq> k \<Longrightarrow> fold store_row rows m k = m k"
  by (induction rows arbitrary: m) (auto simp: store_row_def)

lemma fold_store_row_last:
  "\<forall>r'\<in>set post. (r' ! 0, r' ! 1) \<noteq> (r ! 0, r ! 1) \<Longrightarrow>
   fold store_row (pre @ r # post) m (r ! 0, r ! 1) = Some (r ! 2)"
  by (simp add: fold_store_row_other) (simp add: store_row_def)

lemmas csv_defs = readlines_def csv_reader_def parse_line_def parse_process_char_def
  start_field_def parse_add_char_def parse_save_field_def parse_reset_def set_state_def
  end_of_line_def after_line_end_def delimiter_def quotechar_def field_limit_def LF_def CR_def

lemma parse_process_char_error: "parse_process_char r c = Inl e \<Longrightarrow> e = Csv_Error"
  by (auto simp: parse_process_char_def start_field_def parse_add_char_def set_state_def
      split: parser_state.splits if_splits sum.splits)

lemma parse_chars_error: "parse_chars r cs = Inl e \<Longrightarrow> e = Csv_Error"
  by (induction cs arbitrary: r) (auto split: sum.splits dest: parse_process_char_error)

lemma parse_line_error: "parse_line r l = Inl e \<Longrightarrow> e = Csv_Error"
  by (auto simp: parse_line_def split: sum.splits dest: parse_chars_error parse_process_char_error)

lemma reader_rows_error: "Inl e \<in> set (reader_rows r ls) \<Longrightarrow> e = Csv_Error"
  by (induction ls arbitrary: r) (auto split: sum.splits if_splits dest: parse_line_error)

lemma dict_of_rows_error:
  "dict_of_rows outs acc = Inl e \<Longrightarrow> e = IndexError \<or> Inl e \<in> set outs"
  by (induction outs acc rule: dict_of_rows.induct) auto

lemma read_db_FileNotFoundError:
  "read_db filename w = Inl FileNotFoundError \<longleftrightarrow> files w filename = None"
  by (auto simp: read_db_def csv_reader_def split: option.splits
      dest!: dict_of_rows_error reader_rows_error)

lemma read_db_create_db: "read_db filename (create_db filename w) = Inr Map.empty"
  by (simp add: read_db_def create_db_def readlines_def csv_reader_def parse_reset_def)

subsection \<open>Rows of plain fields\<close>

lemma comma: "py '','' = [delimiter]"
  by (simp add: py_def delimiter_def)

lemma in_field_run:
  "state r = IN_FIELD \<Longrightarrow> \<forall>c\<in>set f. c \<noteq> delimiter \<and> c \<noteq> LF \<and> c \<noteq> CR \<Longrightarrow>
   length (field r) + length f \<le> field_limit \<Longrightarrow>
   parse_chars r (f @ rest) = parse_chars (r\<lparr>field := field r @ f\<rparr>) rest"
proof (induction f arbitrary: r)
  case Nil
  then show ?case by simp
next
  case (Cons c f)
  have step: "parse_process_char r (Some c) = Inr (r\<lparr>field := field r @ [c]\<rparr>)"
    using Cons.prems
    by (simp add: parse_process_char_def end_of_line_def parse_add_char_def)
  have "parse_chars (r\<lparr>field := field r @ [c]\<rparr>) (f @ rest)
      = parse_chars (r\<lparr>field := field r @ [c]\<rparr>\<lparr>field := field (r\<lparr>field := field r @ [c]\<rparr>) @ f\<rparr>) rest"
    using Cons.prems by (intro Cons.IH) auto
  with step show ?case by simp
qed

lemma plain_field_then_delimiter:
  assumes "state r = START_RECORD \<or> state r = START_FIELD" "field r = []" "plain_field f"
  shows "parse_chars r (f @ delimiter # rest)
       = parse_chars \<lparr>state = START_FIELD, row_fields = row_fields r @ [f], field = []\<rparr> rest"
proof (cases f)
  case Nil
  with assms show ?thesis
    by (cases r)
      (auto simp: parse_process_char_def start_field_def end_of_line_def parse_save_field_def
        delimiter_def quotechar_def LF_def CR_def)
next
  case (Cons c cs)
  let ?r1 = "r\<lparr>state := IN_FIELD, field := [c]\<rparr>"
  from assms Cons have c: "c \<noteq> delimiter" "c \<noteq> LF" "c \<noteq> CR" "c \<noteq> quotechar"
    by (auto simp: plain_field_def)
  have first: "parse_process_char r (Some c) = Inr ?r1"
    using assms(1,2) c
    by (auto simp: parse_process_char_def start_field_def end_of_line_def parse_add_char_def
        set_state_def field_limit_def)
  have run: "parse_chars ?r1 (cs @ delimiter # rest)
      = parse_chars (?r1\<lparr>field := field ?r1 @ cs\<rparr>) (delimiter # rest)"
    using assms(3) Cons by (intro in_field_run) (auto simp: plain_field_def)
  have last: "parse_process_char (?r1\<lparr>field := field ?r1 @ cs\<rparr>) (Some delimiter)
      = Inr \<lparr>state = START_FIELD, row_fields = row_fields r @ [f], field = []\<rparr>"
    using Cons
    by (simp add: parse_process_char_def end_of_line_def parse_save_field_def
        delimiter_def LF_def CR_def)
  from first run last Cons show ?thesis by simp
qed

lemma plain_field_then_newline:
  assumes "state r = START_FIELD" "field r = []" "plain_field f"
  shows "parse_line r (f @ [LF])
       = Inr \<lparr>state = START_RECORD, row_fields = row_fields r @ [f], field = []\<rparr>"
proof (cases f)
  case Nil
  with assms show ?thesis
    by (simp add: parse_line_def parse_process_char_def start_field_def end_of_line_def
        parse_save_field_def after_line_end_def)
next
  case (Cons c cs)
  let ?r1 = "r\<lparr>state := IN_FIELD, field := [c]\<rparr>"
  from assms Cons have c: "c \<noteq> delimiter" "c \<noteq> LF" "c \<noteq> CR" "c \<noteq> quotechar"
    by (auto simp: plain_field_def)
  have first: "parse_process_char r (Some c) = Inr ?r1"
    using assms(1,2) c
    by (auto simp: parse_process_char_def start_field_def end_of_line_def parse_add_char_def
        set_state_def field_limit_def)
  have run: "parse_chars ?r1 (cs @ [LF])
      = parse_chars (?r1\<lparr>field := field ?r1 @ cs\<rparr>) [LF]"
    using assms(3) Cons by (intro in_field_run) (auto simp: plain_field_def)
  have last: "parse_process_char (?r1\<lparr>field := field ?r1 @ cs\<rparr>) (Some LF)
      = Inr \<lparr>state = EAT_CRNL, row_fields = row_fields r @ [f], field = []\<rparr>"
    using Cons
    by (simp add: parse_process_char_def end_of_line_def parse_save_field_def
        after_line_end_def)
  from first run last Cons show ?thesis
    by (simp add: parse_line_def parse_process_char_def)
qed

lemma parse_line_db_line:
  assumes "plain_row row"
  shows "parse_line parse_reset (db_line row)
       = Inr \<lparr>state = START_RECORD, row_fields = row_list row, field = []\<rparr>"
proof -
  obtain n k h where row: "row = (n, k, h)"
    by (cases row)
  with assms have p: "plain_field n" "plain_field k" "plain_field h"
    by simp_all
  let ?r1 = "\<lparr>state = START_FIELD, row_fields = [n], field = []\<rparr>"
  let ?r2 = "\<lparr>state = START_FIELD, row_fields = [n, k], field = []\<rparr>"
  have a: "parse_chars parse_reset (n @ delimiter # k @ delimiter # h @ [LF])
      = parse_chars ?r1 (k @ delimiter # h @ [LF])"
    using plain_field_then_delimiter [of parse_reset n] p(1) by (simp add: parse_reset_def)
  have b: "parse_chars ?r1 (k @ delimiter # h @ [LF]) = parse_chars ?r2 (h @ [LF])"
    using plain_field_then_delimiter [of ?r1 k] p(2) by simp
  have c: "parse_line ?r2 (h @ [LF])
      = Inr \<lparr>state = START_RECORD, row_fields = [n, k, h], field = []\<rparr>"
    using plain_field_then_newline [of ?r2 h] p(3) by simp
  from a b c show ?thesis
    by (simp add: row comma parse_line_def)
qed

lemma reader_rows_db_lines:
  "\<forall>row\<in>set rows. plain_row row \<Longrightarrow>
   reader_rows parse_reset (map db_line rows) = map (\<lambda>row. Inr (row_list row)) rows"
proof (induction rows)
  case Nil
  then show ?case by (simp add: parse_reset_def)
next
  case (Cons row rows)
  then show ?case by (simp add: parse_line_db_line)
qed

lemma universal_newlines_plain: "CR \<notin> set t \<Longrightarrow> universal_newlines False t = t"
  by (induction t) auto

lemma split_lines_line:
  "LF \<notin> set t \<Longrightarrow> split_lines cur (t @ LF # rest) = (cur @ t @ [LF]) # split_lines [] rest"
  by (induction t arbitrary: cur) auto

lemma plain_field_no_newline: "plain_field f \<Longrightarrow> LF \<notin> set f \<and> CR \<notin> set f \<and> delimiter \<notin> set f"
  by (auto simp: plain_field_def)

lemma delimiter_no_newline: "delimiter \<noteq> LF \<and> delimiter \<noteq> CR"
  by (simp add: delimiter_def LF_def CR_def)

lemma split_lines_db_lines:
  "\<forall>row\<in>set rows. plain_row row \<Longrightarrow>
   split_lines [] (concat (map db_line rows)) = map db_line rows"
proof (induction rows)
  case Nil
  then show ?case by simp
next
  case (Cons row rows)
  obtain n k h where row: "row = (n, k, h)"
    by (cases row)
  with Cons.prems have "LF \<notin> set (n @ delimiter # k @ delimiter # h)"
    using delimiter_no_newline by (auto dest: plain_field_no_newline)
  from split_lines_line [OF this, of "[]" "concat (map db_line rows)"] Cons row
  show ?case by (simp add: comma)
qed

lemma no_CR_db_lines:
  "\<forall>row\<in>set rows. plain_row row \<Longrightarrow> CR \<notin> set (concat (map db_line rows))"
proof (induction rows)
  case Nil
  then show ?case by simp
next
  case (Cons row rows)
  obtain n k h where row: "row = (n, k, h)"
    by (cases row)
  with Cons show ?case
    using delimiter_no_newline
    by (auto simp: comma LF_def CR_def dest: plain_field_no_newline)
qed

lemma readlines_db_lines:
  "\<forall>row\<in>set rows. plain_row row \<Longrightarrow> readlines (concat (map db_line rows)) = map db_line rows"
proof -
  assume plain: "\<forall>row\<in>set rows. plain_row row"
  then have "universal_newlines False (concat (map db_line rows)) = concat (map db_line rows)"
    by (intro universal_newlines_plain no_CR_db_lines)
  with plain show ?thesis
    by (simp only: readlines_def split_lines_db_lines)
qed

lemma csv_reader_db_lines:
  "\<forall>row\<in>set rows. plain_row row \<Longrightarrow>
   csv_reader (readlines (concat (map db_line rows))) = map Inr (map row_list rows)"
  by (simp add: readlines_db_lines csv_reader_def reader_rows_db_lines)

lemma fold_store_row_map_of:
  "fold store_row (map row_list rows) m
   = m ++ map_of (rev (map (\<lambda>(n, k, h). ((n, k), h)) rows))"
proof (induction rows arbitrary: m)
  case Nil
  then show ?case by simp
next
  case (Cons row rows)
  obtain n k h where row: "row = (n, k, h)"
    by (cases row)
  have "fold store_row (map row_list (row # rows)) m
      = fold store_row (map row_list rows) (m((n, k) \<mapsto> h))"
    by (simp add: row store_row_Cons)
  also have "\<dots> = m((n, k) \<mapsto> h) ++ map_of (rev (map (\<lambda>(n, k, h). ((n, k), h)) rows))"
    by (rule Cons)
  also have "m((n, k) \<mapsto> h) = m ++ [(n, k) \<mapsto> h]"
    by simp
  finally show ?case
    by (simp only: row list.map rev.simps map_of_append map_add_assoc prod.case map_of.simps
        fst_conv snd_conv)
qed

lemma read_db_db_lines:
  assumes "files w filename = Some (concat (map db_line rows))" "\<forall>row\<in>set rows. plain_row row"
  shows "read_db filename w = Inr (map_of (rev (map (\<lambda>(n, k, h). ((n, k), h)) rows)))"
proof -
  have "\<forall>r\<in>set (map row_list rows). 3 \<le> length r"
    by auto
  from dict_of_rows_map_Inr [OF this, of Map.empty] assms show ?thesis
    by (simp add: read_db_def csv_reader_db_lines fold_store_row_map_of)
qed

text \<open>
  Claim C9. When the reader gives the rows of the cache file, each with at least three
  fields, \<open>read_db\<close> returns a mapping, and a key that several rows share is bound
  to the third field of the last of them in file order.
\<close>

theorem read_db_last_row_wins:
  assumes "files w filename = Some text"
    and "csv_reader (readlines text) = map Inr (pre @ r # post)"
    and "\<forall>r'\<in>set (pre @ r # post). 3 \<le> length r'"
    and "\<forall>r'\<in>set post. \<not> (r' ! 0 = r ! 0 \<and> r' ! 1 = r ! 1)"
  shows "\<exists>db. read_db filename w = Inr db \<and> db (r ! 0, r ! 1) = Some (r ! 2)"
proof -
  have "read_db filename w = Inr (fold store_row (pre @ r # post) Map.empty)"
    using assms(1,2,3) by (simp add: read_db_def dict_of_rows_map_Inr del: map_append)
  moreover have "fold store_row (pre @ r # post) Map.empty (r ! 0, r ! 1) = Some (r ! 2)"
    using assms(4) by (intro fold_store_row_last) auto
  ultimately show ?thesis by simp
qed

theorem read_db_last_row_wins_witness:
  "files rewritten_world db_csv = Some (concat (map db_line rewritten_rows))
   \<and> csv_reader (readlines (concat (map db_line rewritten_rows)))
       = map Inr (map row_list rewritten_rows)
   \<and> map_sum id (\<lambda>db. db (py ''Tit For Tat'', py ''Ashlock''))
         (read_db db_csv rewritten_world)
       = Inr (Some (py ''900150983cd24fb0d6963f7d28e17f72''))"
proof -
  let ?old = "[py ''Tit For Tat'', py ''Ashlock'', py ''d41d8cd98f00b204e9800998ecf8427e'']"
  let ?new = "[py ''Tit For Tat'', py ''Ashlock'', py ''900150983cd24fb0d6963f7d28e17f72'']"
  let ?other = "[py ''Tit For Tat'', py ''Transitive'', py ''900150983cd24fb0d6963f7d28e17f72'']"
  have a: "files rewritten_world db_csv = Some (concat (map db_line rewritten_rows))"
    by (simp add: rewritten_world_def)
  have b: "csv_reader (readlines (concat (map db_line rewritten_rows)))
      = map Inr ([?old] @ ?new # [?other])"
    by (simp add: rewritten_rows_def csv_defs py_def)
  have c: "\<forall>r'\<in>set ([?old] @ ?new # [?other]). 3 \<le> length r'"
    by simp
  have d: "\<forall>r'\<in>set [?other]. \<not> (r' ! 0 = ?new ! 0 \<and> r' ! 1 = ?new ! 1)"
    by (simp add: py_def)
  from read_db_last_row_wins [OF a b c d] a b show ?thesis
    by (auto simp: rewritten_rows_def)
qed

section \<open>A missing cache file\<close>

lemma open_db_missing:
  assumes "files w db_csv = None"
  shows "open_db w = Inr (Map.empty, create_db db_csv w)"
proof -
  from assms have "read_db db_csv w = Inl FileNotFoundError"
    by (simp add: read_db_def)
  then show ?thesis
    by (simp add: open_db_def Let_def read_db_create_db)
qed

lemma open_db_created:
  "open_db (create_db db_csv w) = Inr (Map.empty, create_db db_csv w)"
  by (simp add: open_db_def read_db_create_db)

text \<open>
  Claim C6, as stated, fails: \<open>read_db\<close> also raises on a file that exists. On a
  cache file that ends with a blank line the reader gives an empty row, and the
  dictionary comprehension raises \<open>IndexError\<close>.
\<close>

theorem read_db_raises_on_blank_line:
  "files blank_line_world db_csv
     = Some (py ''Tit For Tat,Ashlock,900150983cd24fb0d6963f7d28e17f72'' @ [LF, LF])
   \<and> read_db db_csv blank_line_world = Inl IndexError"
  by (simp add: blank_line_world_def read_db_def csv_defs py_def db_csv_def)

text \<open>
  Claim C6, amended. \<open>read_db\<close> raises \<open>FileNotFoundError\<close> exactly when the file is
  missing; after \<open>create_db\<close> it returns the empty mapping. When the cache file is
  missing as \<open>main\<close> starts, the \<open>try\<close> statement creates the empty file and goes on
  with the empty mapping, so that \<open>main\<close> runs as it does on the world with the file
  created.
\<close>

theorem missing_cache_is_created:
  "(read_db filename w = Inl FileNotFoundError \<longleftrightarrow> files w filename = None)
   \<and> read_db filename (create_db filename w) = Inr Map.empty
   \<and> (files w db_csv = None \<longrightarrow>
        open_db w = Inr (Map.empty, create_db db_csv w)
        \<and> files (create_db db_csv w) db_csv = Some []
        \<and> main lib t r tt tr vt vr w = main lib t r tt tr vt vr (create_db db_csv w))"
proof -
  have "main lib t r tt tr vt vr w = main lib t r tt tr vt vr (create_db db_csv w)"
    if "files w db_csv = None"
  proof -
    from that have "open_db w = open_db (create_db db_csv w)"
      by (simp only: open_db_missing open_db_created)
    then show ?thesis
      by (simp only: main_def)
  qed
  moreover have "files (create_db db_csv w) db_csv = Some []"
    by (simp add: create_db_def)
  ultimately show ?thesis
    by (simp add: read_db_FileNotFoundError read_db_create_db open_db_missing)
qed

theorem missing_cache_is_created_witness:
  "files empty_world db_csv = None
   \<and> read_db db_csv empty_world = Inl FileNotFoundError
   \<and> open_db empty_world = Inr (Map.empty, create_db db_csv empty_world)
   \<and> files (create_db db_csv empty_world) db_csv = Some []
   \<and> read_db db_csv (create_db db_csv empty_world) = Inr Map.empty"
proof -
  have "files empty_world db_csv = None"
    by (simp add: empty_world_def)
  with missing_cache_is_created [of db_csv empty_world] show ?thesis
    by simp
qed

section \<open>Writing the cache and reading it back\<close>

lemma plain_field_hexdigest: "plain_field (md5_hexdigest b)"
proof -
  have len: "length (md5_hexdigest b) = 32" and sub: "set (md5_hexdigest b) \<subseteq> set hexdigits"
    using md5_hexdigest_digits [of b] by simp_all
  have hex: "\<forall>c\<in>set hexdigits. c \<noteq> delimiter \<and> c \<noteq> LF \<and> c \<noteq> CR \<and> c \<noteq> quotechar"
    by (simp add: hexdigits_def py_def delimiter_def LF_def CR_def quotechar_def)
  have "hd (md5_hexdigest b) \<in> set (md5_hexdigest b)"
    using len by (intro hd_in_set) auto
  with sub hex have "hd (md5_hexdigest b) \<noteq> quotechar"
    by blast
  moreover from sub hex
  have "\<forall>c\<in>set (md5_hexdigest b). c \<noteq> delimiter \<and> c \<noteq> LF \<and> c \<noteq> CR"
    by blast
  ultimately show ?thesis
    using len by (simp add: plain_field_def field_limit_def)
qed

lemma plain_field_hash: "hash_strategy s = Inr h \<Longrightarrow> plain_field h"
  by (auto simp: hash_strategy_def and_then_def plain_field_hexdigest split: sum.splits)

lemma encodable_hexdigest: "encodable (md5_hexdigest b)"
proof (rule encodable_small)
  have "\<forall>c\<in>set hexdigits. c < 256"
    by (simp add: hexdigits_def py_def)
  with md5_hexdigest_digits [of b] show "\<forall>c\<in>set (md5_hexdigest b). c < 256"
    by blast
qed

lemma encodable_hash: "hash_strategy s = Inr h \<Longrightarrow> encodable h"
  by (auto simp: hash_strategy_def and_then_Inr encodable_hexdigest)

lemma write_strategy_to_db_eq:
  "write_strategy_to_db s filename fp w =
     (case hash_strategy s of
        Inl e \<Rightarrow> Inl e
      | Inr h \<Rightarrow>
          if encodable (display_name s) \<and> encodable fp
          then Inr (append_file filename (db_line (display_name s, fp, h)) w)
          else Inl UnicodeEncodeError)"
  by (auto simp: write_strategy_to_db_def and_then_def encoded_eq encodable_append
      encodable_py encodable_LF dest: encodable_hash split: sum.splits)

lemma write_strategy_to_db_Inr:
  "write_strategy_to_db s filename fp w = Inr w' \<longleftrightarrow>
     (\<exists>h. hash_strategy s = Inr h \<and> encodable (display_name s) \<and> encodable fp
        \<and> w' = append_file filename (db_line (display_name s, fp, h)) w)"
  by (auto simp: write_strategy_to_db_eq split: sum.splits)

lemma file_text_append_file:
  "files (append_file filename t w) filename = Some (file_text w filename @ t)"
  by (simp add: append_file_def file_text_def)

lemma write_entries_rows:
  "map (\<lambda>e. hash_strategy (fst e)) entries = map Inr hs \<Longrightarrow>
   \<forall>e\<in>set entries. encodable (display_name (fst e)) \<and> encodable (snd e) \<Longrightarrow>
   \<exists>w'. write_entries entries filename w = Inr w'
      \<and> files w' filename
          = (if entries = [] then files w filename
             else Some (file_text w filename @ concat (map db_line (map entry_row (zip entries hs)))))"
proof (induction entries arbitrary: w hs)
  case Nil
  then show ?case by simp
next
  case (Cons e es)
  obtain s fp where e: "e = (s, fp)"
    by (cases e)
  from Cons.prems obtain h hs' where hs: "hs = h # hs'" "hash_strategy s = Inr h"
    "map (\<lambda>e. hash_strategy (fst e)) es = map Inr hs'"
    by (cases hs) (auto simp: e)
  let ?w1 = "append_file filename (db_line (display_name s, fp, h)) w"
  have w1: "write_strategy_to_db s filename fp w = Inr ?w1"
    using Cons.prems(2) by (simp add: write_strategy_to_db_eq hs(2) e)
  from Cons.prems(2) have "\<forall>e\<in>set es. encodable (display_name (fst e)) \<and> encodable (snd e)"
    by simp
  from Cons.IH [OF hs(3) this, of ?w1] obtain w' where w': "write_entries es filename ?w1 = Inr w'"
    "files w' filename
      = (if es = [] then files ?w1 filename
         else Some (file_text ?w1 filename @ concat (map db_line (map entry_row (zip es hs')))))"
    by blast
  have "file_text ?w1 filename = file_text w filename @ db_line (display_name s, fp, h)"
    by (simp add: append_file_def file_text_def)
  with w' w1 show ?case
    by (simp add: e hs(1) and_then_def file_text_append_file)
qed

lemma map_of_rev_distinct: "distinct (map fst xs) \<Longrightarrow> map_of (rev xs) = map_of xs"
proof (induction xs)
  case Nil
  then show ?case by simp
next
  case (Cons x xs)
  obtain k v where x: "x = (k, v)"
    by (cases x)
  with Cons.prems have "map_of xs k = None"
    by (simp add: map_of_eq_None_iff)
  then have "[k \<mapsto> v] ++ map_of xs = (map_of xs)(k \<mapsto> v)"
    by (intro ext) (auto simp: map_add_def split: option.splits)
  with Cons x show ?case
    by simp
qed

text \<open>
  Claim C3, as stated, fails for a name with a comma: the row written for the entry
  (\<open>Tit, Tat\<close>, \<open>Ashlock\<close>) is read back as an entry under the key (\<open>Tit\<close>, \<open> Tat\<close>)
  with the value \<open>Ashlock\<close>, and the key that was written is not in the mapping.
\<close>

theorem comma_in_name_breaks_round_trip:
  "map_sum id (\<lambda>db. (db (py ''Tit, Tat'', py ''Ashlock''), db (py ''Tit'', py '' Tat'')))
     (and_then (write_entries [(comma_strategy, py ''Ashlock'')] db_csv
                 (create_db db_csv empty_world))
        (read_db db_csv))
   = Inr (None, Some (py ''Ashlock''))"
proof -
  have name: "display_name comma_strategy = py ''Tit, Tat''"
    by (simp add: display_name_def comma_strategy_def)
  have "write_entries [(comma_strategy, py ''Ashlock'')] db_csv (create_db db_csv empty_world)
      = Inr (empty_world\<lparr>files := [db_csv \<mapsto>
          py ''Tit, Tat,Ashlock,900150983cd24fb0d6963f7d28e17f72'' @ [LF]]\<rparr>)"
    using name by (simp add: write_strategy_to_db_eq hash_comma_strategy and_then_def
        append_file_def create_db_def empty_world_def encodable_def py_def)
  then show ?thesis
    by (simp add: and_then_def read_db_def csv_defs py_def)
qed

text \<open>
  A name or a kind that cannot be encoded is not written: the write raises
  \<open>UnicodeEncodeError\<close>, so there is nothing to read back.
\<close>

lemma unencodable_row_is_not_written:
  assumes "hash_strategy s = Inr h" and "\<not> (encodable (display_name s) \<and> encodable fp)"
  shows "write_strategy_to_db s filename fp w = Inl UnicodeEncodeError"
  using assms by (simp add: write_strategy_to_db_eq)

text \<open>
  Claim C3, amended. When the names and the kinds of the entries are plain fields (no
  comma, no line break, no double quote at the start, within the field size limit) that
  can be encoded in UTF-8 (no surrogate code point), and every strategy can be hashed,
  writing the entries to a fresh cache file returns, and reading the file back gives
  the mapping of the entries, a later entry replacing an earlier one with the same key;
  for entries with distinct keys that is the mapping that was written.
\<close>

theorem cache_round_trip:
  assumes "\<forall>e\<in>set entries. plain_field (display_name (fst e)) \<and> plain_field (snd e)"
    and "\<forall>e\<in>set entries. encodable (display_name (fst e)) \<and> encodable (snd e)"
    and "map (\<lambda>e. hash_strategy (fst e)) entries = map Inr hs"
  shows "\<exists>w'. write_entries entries filename (create_db filename w) = Inr w'
           \<and> read_db filename w'
               = Inr (map_of (rev (zip (map (\<lambda>e. (display_name (fst e), snd e)) entries) hs)))
           \<and> (distinct (map (\<lambda>e. (display_name (fst e), snd e)) entries) \<longrightarrow>
                read_db filename w'
                  = Inr (map_of (zip (map (\<lambda>e. (display_name (fst e), snd e)) entries) hs)))"
proof -
  let ?rows = "map entry_row (zip entries hs)"
  from assms(3) have len: "length hs = length entries"
    by (metis length_map)
  from write_entries_rows [OF assms(3) assms(2), of filename "create_db filename w"]
  obtain w' where w': "write_entries entries filename (create_db filename w) = Inr w'"
    "files w' filename = Some (concat (map db_line ?rows))"
    by (auto simp: create_db_def file_text_def split: if_splits)
  have "plain_row row" if "row \<in> set ?rows" for row
  proof -
    from that obtain s fp h where r: "row = (display_name s, fp, h)" "((s, fp), h) \<in> set (zip entries hs)"
      by auto
    then have "(s, fp) \<in> set entries"
      by (auto dest: set_zip_leftD)
    moreover from r(2) obtain i where "i < length entries" "entries ! i = (s, fp)" "hs ! i = h"
      by (auto simp: set_zip)
    with assms(3) have "hash_strategy s = Inr h"
      by (metis fst_conv nth_map len)
    ultimately show ?thesis
      using assms(1) r(1) by (auto dest: plain_field_hash)
  qed
  then have "read_db filename w' = Inr (map_of (rev (map (\<lambda>(n, k, h). ((n, k), h)) ?rows)))"
    using w'(2) by (intro read_db_db_lines) auto
  moreover have "map (\<lambda>(n, k, h). ((n, k), h)) ?rows
      = zip (map (\<lambda>e. (display_name (fst e), snd e)) entries) hs"
    using len by (induction entries hs rule: list_induct2') auto
  ultimately have rd: "read_db filename w'
      = Inr (map_of (rev (zip (map (\<lambda>e. (display_name (fst e), snd e)) entries) hs)))"
    by simp
  have "map_of (rev (zip (map (\<lambda>e. (display_name (fst e), snd e)) entries) hs))
      = map_of (zip (map (\<lambda>e. (display_name (fst e), snd e)) entries) hs)"
    if "distinct (map (\<lambda>e. (display_name (fst e), snd e)) entries)"
    using that len by (intro map_of_rev_distinct) simp
  with rd w'(1) show ?thesis
    by auto
qed

theorem cache_round_trip_witness:
  "plain_field (display_name example_strategy) \<and> plain_field (py ''Ashlock'')
   \<and> plain_field (display_name example_player) \<and> plain_field (py ''Transitive'')
   \<and> encodable (display_name example_strategy) \<and> encodable (py ''Ashlock'')
   \<and> encodable (display_name example_player) \<and> encodable (py ''Transitive'')
   \<and> hash_strategy example_strategy = Inr (py ''900150983cd24fb0d6963f7d28e17f72'')
   \<and> hash_strategy example_player = Inr (py ''b880b20fcd0798fdd402e11dbdc9fa9f'')
   \<and> and_then
         (write_entries [(example_strategy, py ''Ashlock''), (example_player, py ''Transitive'')]
            db_csv (create_db db_csv empty_world))
         (read_db db_csv)
       = Inr (map_of
           [((py ''Tit For Tat'', py ''Ashlock''), py ''900150983cd24fb0d6963f7d28e17f72''),
            ((py ''k31r'', py ''Transitive''), py ''b880b20fcd0798fdd402e11dbdc9fa9f'')])"
proof -
  let ?entries = "[(example_strategy, py ''Ashlock''), (example_player, py ''Transitive'')]"
  let ?hs = "[py ''900150983cd24fb0d6963f7d28e17f72'', py ''b880b20fcd0798fdd402e11dbdc9fa9f'']"
  have names: "display_name example_strategy = py ''Tit For Tat''"
    "display_name example_player = py ''k31r''"
    by (simp_all add: display_name_def example_strategy_def example_player_def)
  have plain: "plain_field (py ''Tit For Tat'')" "plain_field (py ''Ashlock'')"
    "plain_field (py ''k31r'')" "plain_field (py ''Transitive'')"
    by (simp_all add: plain_field_def py_def field_limit_def delimiter_def quotechar_def
        LF_def CR_def)
  have a: "\<forall>e\<in>set ?entries. plain_field (display_name (fst e)) \<and> plain_field (snd e)"
    by (simp add: names plain)
  have b: "map (\<lambda>e. hash_strategy (fst e)) ?entries = map Inr ?hs"
    by (simp add: hash_example_strategy hash_example_player)
  have c: "distinct (map (\<lambda>e. (display_name (fst e), snd e)) ?entries)"
    by (simp add: names py_def)
  have d: "\<forall>e\<in>set ?entries. encodable (display_name (fst e)) \<and> encodable (snd e)"
    by (simp add: names encodable_py)
  from cache_round_trip [OF a d b, of db_csv empty_world] c
  show ?thesis
    by (auto simp: names plain encodable_py hash_example_strategy hash_example_player
        and_then_def)
qed

section \<open>The effect of the main pass\<close>

lemma effect_refl: "effect w w [] []"
  by (simp add: effect_def)

lemma effect_trans:
  "effect w w1 rows1 fps1 \<Longrightarrow> effect w1 w2 rows2 fps2 \<Longrightarrow>
   effect w w2 (rows1 @ rows2) (fps1 @ fps2)"
  by (simp add: effect_def)

lemma hash_of_eq: "hash_strategy s = Inr h \<Longrightarrow> hash_of s = h"
  by (simp add: hash_of_def)

lemma write_strategy_to_db_effect:
  assumes "write_strategy_to_db s db_csv fp w = Inr w'"
  shows "effect w w' [(display_name s, fp, hash_of s)] [] \<and> files w' db_csv \<noteq> files w db_csv"
proof -
  from assms obtain h where h: "hash_strategy s = Inr h"
    and w': "w' = append_file db_csv (db_line (display_name s, fp, h)) w"
    by (auto simp: write_strategy_to_db_Inr)
  have "db_line (display_name s, fp, h) \<noteq> []"
    by simp
  then have "files w' db_csv \<noteq> files w db_csv"
    unfolding w' by (cases "files w db_csv") (simp_all add: append_file_def)
  with h w' show ?thesis
    by (simp add: effect_def hash_of_eq append_file_def file_text_def)
qed

lemma obtain_transitive_fingerprint_effect:
  "effect w (obtain_transitive_fingerprint s t r w) [] [TransitiveFingerprint s t r]
   \<and> files (obtain_transitive_fingerprint s t r w) = files w"
  by (simp add: obtain_transitive_fingerprint_def Let_def run_fingerprint_def savefig_def
      write_data_to_file_def effect_def file_text_def)

lemma obtain_transitive_fingerprint_v_short_effect:
  "effect w (obtain_transitive_fingerprint_v_short s t r w) []
     [TransitiveFingerprint_v_short s t r]
   \<and> files (obtain_transitive_fingerprint_v_short s t r w) = files w"
  by (simp add: obtain_transitive_fingerprint_v_short_def Let_def run_fingerprint_def
      savefig_def write_data_to_file_def effect_def file_text_def)

lemma stale_iff: "stale db n fp signature \<longleftrightarrow> db (n, fp) \<noteq> Some signature"
  by (auto simp: stale_def dom_def)

lemma update_Ashlock_effect:
  assumes "update_Ashlock db n signature (Some s) w = Inr w'"
  shows "effect w w'
     (if stale db n (py ''Ashlock'') signature then [(display_name s, py ''Ashlock'', hash_of s)]
      else []) []"
  using assms write_strategy_to_db_effect [of s "py ''Ashlock''" w w']
  by (auto simp: update_Ashlock_def and_then_def local_variable_def effect_refl
      split: if_splits)

lemma update_Transitive_effect:
  assumes "update_Transitive db n signature (Some s) t r w = Inr w'"
  shows "effect w w'
     (if stale db n (py ''Transitive'') signature
      then [(display_name s, py ''Transitive'', hash_of s)] else [])
     (if stale db n (py ''Transitive'') signature then [TransitiveFingerprint s t r] else [])"
proof (cases "stale db n (py ''Transitive'') signature")
  case True
  with assms have "write_strategy_to_db s db_csv (py ''Transitive'')
      (obtain_transitive_fingerprint s t r w) = Inr w'"
    by (simp add: update_Transitive_def and_then_def local_variable_def)
  from write_strategy_to_db_effect [OF this] obtain_transitive_fingerprint_effect [of w s t r]
  have "effect w w' ([] @ [(display_name s, py ''Transitive'', hash_of s)])
      ([TransitiveFingerprint s t r] @ [])"
    by (intro effect_trans) blast+
  with True show ?thesis by simp
next
  case False
  with assms show ?thesis
    by (simp add: update_Transitive_def effect_refl)
qed

lemma update_Transitive_v_short_effect:
  assumes "update_Transitive_v_short db n signature (Some s) t r w = Inr w'"
  shows "effect w w'
     (if stale db n (py ''Transitive_v_short'') signature
      then [(display_name s, py ''Transitive_v_short'', hash_of s)] else [])
     (if stale db n (py ''Transitive_v_short'') signature
      then [TransitiveFingerprint_v_short s t r] else [])"
proof (cases "stale db n (py ''Transitive_v_short'') signature")
  case True
  with assms have "write_strategy_to_db s db_csv (py ''Transitive_v_short'')
      (obtain_transitive_fingerprint_v_short s t r w) = Inr w'"
    by (simp add: update_Transitive_v_short_def and_then_def local_variable_def)
  from write_strategy_to_db_effect [OF this]
    obtain_transitive_fingerprint_v_short_effect [of w s t r]
  have "effect w w' ([] @ [(display_name s, py ''Transitive_v_short'', hash_of s)])
      ([TransitiveFingerprint_v_short s t r] @ [])"
    by (intro effect_trans) blast+
  with True show ?thesis by simp
next
  case False
  with assms show ?thesis
    by (simp add: update_Transitive_v_short_def effect_refl)
qed

lemma rows_written_eq:
  "rows_written db n signature s =
     (if stale db n (py ''Ashlock'') signature
      then [(display_name s, py ''Ashlock'', hash_of s)] else [])
     @ (if stale db n (py ''Transitive'') signature
        then [(display_name s, py ''Transitive'', hash_of s)] else [])
     @ (if stale db n (py ''Transitive_v_short'') signature
        then [(display_name s, py ''Transitive_v_short'', hash_of s)] else [])"
  by (simp add: rows_written_def kinds_def stale_iff)

lemma fingerprints_run_eq:
  "fingerprints_run db n signature s tt tr vt vr =
     (if stale db n (py ''Transitive'') signature then [TransitiveFingerprint s tt tr] else [])
     @ (if stale db n (py ''Transitive_v_short'') signature
        then [TransitiveFingerprint_v_short s vt vr] else [])"
  by (simp add: fingerprints_run_def stale_iff)

lemma three_updates_effect:
  assumes "update_Ashlock db n signature (Some s) w = Inr w1"
    and "update_Transitive db n signature (Some s) tt tr w1 = Inr w2"
    and "update_Transitive_v_short db n signature (Some s) vt vr w2 = Inr w3"
  shows "effect w w3 (rows_written db n signature s) (fingerprints_run db n signature s tt tr vt vr)"
proof -
  from effect_trans [OF update_Ashlock_effect [OF assms(1)]
      effect_trans [OF update_Transitive_effect [OF assms(2)]
        update_Transitive_v_short_effect [OF assms(3)]]]
  show ?thesis
    by (simp only: rows_written_eq fingerprints_run_eq append_Nil)
qed

lemma library_body_effect:
  assumes "library_body db tt tr vt vr s (w, markdown, v) = Inr (w', markdown', v')"
  shows "hash_strategy s = Inr (hash_of s) \<and> v' = Some s
    \<and> effect w w' (rows_written db (name s) (hash_of s) s)
        (fingerprints_run db (name s) (hash_of s) s tt tr vt vr)"
proof -
  from assms obtain h w1 w2 where h: "hash_strategy s = Inr h"
    and 1: "update_Ashlock db (name s) h (Some s) w = Inr w1"
    and 2: "update_Transitive db (name s) h (Some s) tt tr w1 = Inr w2"
    and 3: "update_Transitive_v_short db (name s) h (Some s) vt vr w2 = Inr w'"
    and v': "v' = Some s"
    unfolding library_body_def Let_def prod.case and_then_Inr by blast
  from three_updates_effect [OF 1 2 3] h v' show ?thesis
    by (simp add: hash_of_eq)
qed

lemma fortran_body_effect:
  assumes "fortran_body lib db tt tr n0 (w, markdown, v) = Inr (w', markdown', v')"
  shows "\<exists>s. v = Some s \<and> v' = v
    \<and> original_name (Player lib n0) = Some (display_name (Player lib n0))
    \<and> hash_strategy (Player lib n0) = Inr (hash_of (Player lib n0))
    \<and> effect w w'
        (rows_written db (display_name (Player lib n0)) (hash_of (Player lib n0)) s)
        (fingerprints_run db (display_name (Player lib n0)) (hash_of (Player lib n0)) s
           tt tr tt tr)"
proof -
  let ?p = "Player lib n0"
  from assms obtain n h w1 w2 w3 s where n: "attribute (original_name ?p) = Inr n"
    and h: "hash_strategy ?p = Inr h"
    and 1: "update_Ashlock db n h v w = Inr w1"
    and 2: "update_Transitive db n h v tt tr w1 = Inr w2"
    and 3: "update_Transitive_v_short db n h v tt tr w2 = Inr w3"
    and v0: "local_variable v = Inr s" and w': "w' = w3" "v' = v"
    unfolding fortran_body_def Let_def prod.case and_then_Inr by blast
  from v0 have v: "v = Some s"
    by (simp add: local_variable_def split: option.splits)
  from n have n: "original_name ?p = Some n"
    by (simp add: attribute_def split: option.splits)
  from n have dn: "display_name ?p = n"
    by (simp add: display_name_def)
  from three_updates_effect [OF 1 [unfolded v] 2 [unfolded v] 3 [unfolded v]] n h v w' dn
  show ?thesis
    by (simp add: hash_of_eq)
qed

lemma for_each_library_effect:
  "for_each (library_body db tt tr vt vr) ss (w, markdown, v) = Inr (w', markdown', v') \<Longrightarrow>
   (\<forall>s\<in>set ss. hash_strategy s = Inr (hash_of s))
   \<and> v' = (if ss = [] then v else Some (last ss))
   \<and> effect w w' (concat (map (\<lambda>s. rows_written db (name s) (hash_of s) s) ss))
       (concat (map (\<lambda>s. fingerprints_run db (name s) (hash_of s) s tt tr vt vr) ss))"
proof (induction ss arbitrary: w markdown v)
  case Nil
  then show ?case by (simp add: effect_refl)
next
  case (Cons s ss)
  from Cons.prems obtain w1 m1 v1
    where b: "library_body db tt tr vt vr s (w, markdown, v) = Inr (w1, m1, v1)"
      and r: "for_each (library_body db tt tr vt vr) ss (w1, m1, v1) = Inr (w', markdown', v')"
    by (auto split: sum.splits)
  from library_body_effect [OF b] have h: "hash_strategy s = Inr (hash_of s)" and v1: "v1 = Some s"
    and e1: "effect w w1 (rows_written db (name s) (hash_of s) s)
        (fingerprints_run db (name s) (hash_of s) s tt tr vt vr)"
    by blast+
  from Cons.IH [OF r] have hs: "\<forall>s\<in>set ss. hash_strategy s = Inr (hash_of s)"
    and v': "v' = (if ss = [] then v1 else Some (last ss))"
    and e2: "effect w1 w' (concat (map (\<lambda>s. rows_written db (name s) (hash_of s) s) ss))
       (concat (map (\<lambda>s. fingerprints_run db (name s) (hash_of s) s tt tr vt vr) ss))"
    by blast+
  from effect_trans [OF e1 e2] h hs v' v1 show ?case
    by simp
qed

lemma for_each_fortran_effect:
  "for_each (fortran_body lib db tt tr) ns (w, markdown, v) = Inr (w', markdown', v') \<Longrightarrow>
   v' = v
   \<and> (ns \<noteq> [] \<longrightarrow> v \<noteq> None)
   \<and> (\<forall>n0\<in>set ns. original_name (Player lib n0) = Some (display_name (Player lib n0))
         \<and> hash_strategy (Player lib n0) = Inr (hash_of (Player lib n0)))
   \<and> (\<forall>s. v = Some s \<longrightarrow>
        effect w w'
          (concat (map (\<lambda>n0. rows_written db (display_name (Player lib n0))
                     (hash_of (Player lib n0)) s) ns))
          (concat (map (\<lambda>n0. fingerprints_run db (display_name (Player lib n0))
                     (hash_of (Player lib n0)) s tt tr tt tr) ns)))
   \<and> (v = None \<longrightarrow> w' = w)"
proof (induction ns arbitrary: w markdown)
  case Nil
  then show ?case by (simp add: effect_refl)
next
  case (Cons n0 ns)
  from Cons.prems obtain w1 m1 v1
    where b: "fortran_body lib db tt tr n0 (w, markdown, v) = Inr (w1, m1, v1)"
      and r: "for_each (fortran_body lib db tt tr) ns (w1, m1, v1) = Inr (w', markdown', v')"
    by (auto split: sum.splits)
  from fortran_body_effect [OF b] obtain s where s: "v = Some s" "v1 = v"
    and p: "original_name (Player lib n0) = Some (display_name (Player lib n0))"
      "hash_strategy (Player lib n0) = Inr (hash_of (Player lib n0))"
    and e: "effect w w1
        (rows_written db (display_name (Player lib n0)) (hash_of (Player lib n0)) s)
        (fingerprints_run db (display_name (Player lib n0)) (hash_of (Player lib n0)) s
           tt tr tt tr)"
    by blast
  from Cons.IH [OF r [unfolded s(2)]] s(1)
  have v': "v' = v"
    and ps: "\<forall>n0\<in>set ns. original_name (Player lib n0) = Some (display_name (Player lib n0))
         \<and> hash_strategy (Player lib n0) = Inr (hash_of (Player lib n0))"
    and e2: "effect w1 w'
          (concat (map (\<lambda>n0. rows_written db (display_name (Player lib n0))
                     (hash_of (Player lib n0)) s) ns))
          (concat (map (\<lambda>n0. fingerprints_run db (display_name (Player lib n0))
                     (hash_of (Player lib n0)) s tt tr tt tr) ns))"
    by blast+
  from effect_trans [OF e e2] v' s(1) p ps show ?case
    by simp
qed

lemma open_db_Inr:
  assumes "open_db w = Inr (db, w0)"
  shows "files w0 db_csv = Some (file_text w db_csv) \<and> computed w0 = computed w
    \<and> read_db db_csv w0 = Inr db"
proof (cases "read_db db_csv w")
  case (Inr db')
  with assms have "w0 = w" "db' = db"
    by (simp_all add: open_db_def)
  moreover from Inr have "files w db_csv \<noteq> None"
    by (auto simp: read_db_def split: option.splits)
  ultimately show ?thesis
    using Inr by (auto simp: file_text_def)
next
  case (Inl e)
  with assms have e: "e = FileNotFoundError"
    by (cases e) (simp_all add: open_db_def)
  with Inl have none: "files w db_csv = None"
    by (simp add: read_db_FileNotFoundError)
  from open_db_missing [OF this] assms have "db = Map.empty" "w0 = create_db db_csv w"
    by simp_all
  with none show ?thesis
    by (simp add: read_db_create_db) (simp add: create_db_def file_text_def)
qed

lemma db_csv_not_README: "db_csv \<noteq> py ''README.md''"
  by (simp add: db_csv_def py_def)

lemma main_effect:
  assumes "main lib t r tt tr vt vr w = Inr w'"
  shows "\<exists>db w0. open_db w = Inr (db, w0)
    \<and> (\<forall>s\<in>set (short_run_time_strategies lib). hash_strategy s = Inr (hash_of s))
    \<and> (\<forall>n0\<in>set (all_strategies lib).
          original_name (Player lib n0) = Some (display_name (Player lib n0))
          \<and> hash_strategy (Player lib n0) = Inr (hash_of (Player lib n0)))
    \<and> (all_strategies lib \<noteq> [] \<longrightarrow> short_run_time_strategies lib \<noteq> [])
    \<and> files w' db_csv
        = Some (file_text w db_csv @ concat (map db_line (library_rows lib db @ fortran_rows lib db)))
    \<and> computed w'
        = computed w @ library_fingerprints lib db tt tr vt vr @ fortran_fingerprints lib db tt tr"
proof -
  let ?ss = "short_run_time_strategies lib"
  from assms obtain db w0 w1 m1 v1 w2 m2 v2 where o: "open_db w = Inr (db, w0)"
    and l1: "for_each (library_body db tt tr vt vr) ?ss
        (w0, report_header (version lib) (axlf_version lib) t r, None) = Inr (w1, m1, v1)"
    and l2: "for_each (fortran_body lib db tt tr) (all_strategies lib)
        (w1, m1 @ fortran_header, v1) = Inr (w2, m2, v2)"
    and w': "w' = write_file (py ''README.md'') m2 w2"
    by (auto simp: main_def Let_def and_then_Inr encoded_eq split: if_splits)
  from open_db_Inr [OF o] have f0: "files w0 db_csv = Some (file_text w db_csv)"
    and c0: "computed w0 = computed w"
    by simp_all
  from for_each_library_effect [OF l1]
  have hs: "\<forall>s\<in>set ?ss. hash_strategy s = Inr (hash_of s)"
    and v1: "v1 = (if ?ss = [] then None else Some (last ?ss))"
    and e1: "effect w0 w1 (library_rows lib db) (library_fingerprints lib db tt tr vt vr)"
    by (simp_all add: library_rows_def library_fingerprints_def)
  from for_each_fortran_effect [OF l2] v1
  have ps: "\<forall>n0\<in>set (all_strategies lib).
      original_name (Player lib n0) = Some (display_name (Player lib n0))
      \<and> hash_strategy (Player lib n0) = Inr (hash_of (Player lib n0))"
    and ne: "all_strategies lib \<noteq> [] \<longrightarrow> ?ss \<noteq> []"
    by (simp_all split: if_splits)
  have e2: "effect w1 w2 (fortran_rows lib db) (fortran_fingerprints lib db tt tr)"
  proof (cases "?ss = []")
    case True
    with v1 for_each_fortran_effect [OF l2] have "w2 = w1"
      by simp
    with True show ?thesis
      by (simp add: fortran_rows_def fortran_fingerprints_def effect_refl)
  next
    case False
    with v1 for_each_fortran_effect [OF l2] show ?thesis
      by (simp add: fortran_rows_def fortran_fingerprints_def)
  qed
  from effect_trans [OF e1 e2] f0 c0
  have "files w2 db_csv
      = Some (file_text w db_csv @ concat (map db_line (library_rows lib db @ fortran_rows lib db)))"
    and "computed w2
      = computed w @ library_fingerprints lib db tt tr vt vr @ fortran_fingerprints lib db tt tr"
    by (auto simp: effect_def file_text_def split: option.splits)
  with o hs ps ne w' show ?thesis
    by (simp add: write_file_def db_csv_not_README)
qed

lemma rows_written_set:
  "row \<in> set (rows_written db n signature s) \<Longrightarrow>
   \<exists>k\<in>set kinds. row = (display_name s, k, hash_of s)"
  by (auto simp: rows_written_def)



lemma main_rows_form:
  assumes "row \<in> set (library_rows lib db @ fortran_rows lib db)"
  shows "\<exists>s\<in>set (short_run_time_strategies lib). \<exists>k\<in>set kinds.
           row = (display_name s, k, hash_of s)"
proof -
  from assms consider "row \<in> set (library_rows lib db)" | "row \<in> set (fortran_rows lib db)"
    by auto
  then show ?thesis
  proof cases
    case 1
    then obtain s where "s \<in> set (short_run_time_strategies lib)"
      "row \<in> set (rows_written db (name s) (hash_of s) s)"
      by (auto simp: library_rows_def)
    with rows_written_set show ?thesis
      by blast
  next
    case 2
    then have "short_run_time_strategies lib \<noteq> []"
      and "\<exists>k\<in>set kinds. row = (display_name (last (short_run_time_strategies lib)), k,
             hash_of (last (short_run_time_strategies lib)))"
      by (auto simp: fortran_rows_def split: if_splits dest: rows_written_set)
    then show ?thesis
      using last_in_set by blast
  qed
qed



lemma dom_fold_store_row:
  "dom (fold store_row rows m) = dom m \<union> (\<lambda>r. (r ! 0, r ! 1)) ` set rows"
  by (induction rows arbitrary: m) (auto simp: store_row_def)


subsection \<open>Two runs\<close>

lemma fortran_player_k31r: "fortran_player (py ''k31r'') = example_player"
  by (simp add: fortran_player_def example_player_def)

lemma example_strategy_names:
  "name example_strategy = py ''Tit For Tat''" "original_name example_strategy = None"
  "display_name example_strategy = py ''Tit For Tat''"
  by (simp_all add: example_strategy_def display_name_def)

lemma example_player_names:
  "name example_player = py ''k31r''" "original_name example_player = Some (py ''k31r'')"
  "display_name example_player = py ''k31r''"
  by (simp_all add: example_player_def display_name_def)

lemma encodable_str_of_nat: "encodable (str_of_nat n)"
proof (induction n rule: str_of_nat.induct)
  case (1 n)
  have "encodable [48 + n mod 10]"
    by (rule encodable_small) simp
  moreover have "n < 10 \<Longrightarrow> encodable [48 + n]"
    by (rule encodable_small) simp
  ultimately show ?case
    using "1" by (subst str_of_nat.simps) (simp add: encodable_append)
qed

lemma encodable_str_of_int: "encodable (str_of_int i)"
  by (simp add: str_of_int_def encodable_Cons encodable_str_of_nat)

lemma encodable_unlines: "encodable (unlines ls)"
  by (induction ls) (simp_all add: unlines_def encodable_Nil encodable_append encodable_py
      encodable_Cons LF_def)

lemma encodable_format_filename: "encodable (format_filename t)"
proof (rule encodable_small)
  have "\<forall>c\<in>set allowed_chars. c < 256"
    by (simp add: allowed_chars_def ascii_letters_def digits_def py_def)
  with set_sanitize [of t] show "\<forall>c\<in>set (format_filename t). c < 256"
    by (auto simp: format_filename_sanitize)
qed

lemma encodable_write_markdown:
  "encodable (display_name s) \<Longrightarrow> encodable (write_markdown s)"
  by (simp add: write_markdown_def Let_def encodable_append encodable_Cons encodable_Nil
      encodable_py encodable_LF encodable_format_filename LF_def)

lemma encodable_report_header:
  "encodable v \<Longrightarrow> encodable a \<Longrightarrow> encodable (report_header v a t r)"
  by (simp add: report_header_def encodable_append encodable_Cons encodable_Nil encodable_py
      encodable_unlines encodable_str_of_int LF_def)

lemma encodable_fortran_header: "encodable fortran_header"
  by (simp add: fortran_header_def encodable_append encodable_Cons encodable_Nil
      encodable_unlines LF_def)

lemmas markdown_encodable = encoded_eq encodable_append encodable_py encodable_report_header
  encodable_write_markdown encodable_fortran_header

lemmas run_defs = main_def library_body_def fortran_body_def update_Ashlock_def
  update_Transitive_def update_Transitive_v_short_def write_strategy_to_db_eq db_line.simps
  markdown_encodable obtain_transitive_fingerprint_def obtain_transitive_fingerprint_v_short_def
  run_fingerprint_def savefig_def write_data_to_file_def write_file_def append_file_def
  create_db_def and_then_def attribute_def local_variable_def stale_def Let_def

lemma empty_world_fields:
  "files empty_world = Map.empty" "artifacts empty_world = Map.empty" "computed empty_world = []"
  by (simp_all add: empty_world_def)

lemma first_run:
  "\<exists>w'. main library_only 200 50 200 50 200 50 empty_world = Inr w'
     \<and> computed w' = [TransitiveFingerprint example_strategy 200 50,
                      TransitiveFingerprint_v_short example_strategy 200 50]
     \<and> files w' db_csv = Some (concat (map db_line cached_rows))"
proof -
  have o: "open_db empty_world = Inr (Map.empty, create_db db_csv empty_world)"
    by (simp add: open_db_missing empty_world_def)
  show ?thesis
    by (simp add: run_defs o library_only_def example_library_def example_strategy_names
        hash_example_strategy empty_world_fields cached_rows_def db_csv_not_README
        db_csv_not_README [symmetric])
qed

lemma cached_rows_plain: "\<forall>row\<in>set cached_rows. plain_row row"
  by (simp add: cached_rows_def plain_field_def py_def field_limit_def delimiter_def
      quotechar_def LF_def CR_def)

lemma read_cached_world:
  "read_db db_csv cached_world
   = Inr (map_of (rev (map (\<lambda>(n, k, h). ((n, k), h)) cached_rows)))"
  by (intro read_db_db_lines cached_rows_plain) (simp add: cached_world_def)

lemma cached_world_fields:
  "files cached_world = [db_csv \<mapsto> concat (map db_line cached_rows)]"
  "artifacts cached_world = Map.empty" "computed cached_world = []"
  by (simp_all add: cached_world_def)

lemma cached_run:
  "\<exists>w'. main example_library 200 50 200 50 200 50 cached_world = Inr w'
     \<and> computed w' = [TransitiveFingerprint example_strategy 200 50,
                      TransitiveFingerprint_v_short example_strategy 200 50]
     \<and> files w' db_csv = Some (concat (map db_line (cached_rows @ cached_rows)))
     \<and> artifacts w' (py ''assets/transitive_Tit_For_Tat.png'')
         = Some (Figure (TransitiveFingerprint example_strategy 200 50))"
proof -
  have o: "open_db cached_world
      = Inr (map_of (rev (map (\<lambda>(n, k, h). ((n, k), h)) cached_rows)), cached_world)"
    by (simp add: open_db_def read_cached_world)
  have f: "format_filename (py ''Tit For Tat'') = py ''Tit_For_Tat''"
    by (simp add: format_filename_def replace_char_def valid_chars_def ascii_letters_def
        digits_def py_def)
  have k: "py ''Ashlock'' \<noteq> py ''Transitive''" "py ''Ashlock'' \<noteq> py ''Transitive_v_short''"
    "py ''Transitive'' \<noteq> py ''Transitive_v_short''" "py ''k31r'' \<noteq> py ''Tit For Tat''"
    by (simp_all add: py_def)
  have p: "py ''assets/transitive_'' @ py ''Tit_For_Tat'' @ py ''.csv''
      \<noteq> py ''assets/transitive_Tit_For_Tat.png''"
    "py ''assets/transitive_v_short_'' @ py ''Tit_For_Tat'' @ py ''.csv''
      \<noteq> py ''assets/transitive_Tit_For_Tat.png''"
    "py ''assets/transitive_v_short_'' @ py ''Tit_For_Tat'' @ py ''.png''
      \<noteq> py ''assets/transitive_Tit_For_Tat.png''"
    "py ''assets/transitive_'' @ py ''Tit_For_Tat'' @ py ''.png''
      = py ''assets/transitive_Tit_For_Tat.png''"
    by (simp_all add: py_def)
  show ?thesis
    by (simp add: run_defs o example_library_def example_strategy_names fortran_player_k31r
        example_player_names hash_example_strategy hash_example_player cached_world_fields
        cached_rows_def db_csv_not_README db_csv_not_README [symmetric] f k k [symmetric] p
        p(1) [symmetric] p(2) [symmetric] p(3) [symmetric] dom_def)
qed

subsection \<open>When the pass returns\<close>











section \<open>The claims on the main pass\<close>



text \<open>
  Claim C8. A call of \<open>write_strategy_to_db\<close> that returns has put, at the end of the
  file and after what the file held, the line made of the name of the strategy (its
  \<open>original_name\<close> when it has one, otherwise its \<open>name\<close>), a comma, the kind, a comma,
  the MD5 hex digest that \<open>hash_strategy\<close> gives, and a line feed; it leaves every other
  file as it was. A run of \<open>main\<close> that returns has only added lines to the cache file,
  each of them such a row for a strategy of the library and one of the three kinds.
  \<open>read_db\<close>, when it returns, has read every row that the reader gives for the whole
  file, and its mapping has exactly the keys (first field, second field) of those rows.
\<close>

theorem cache_rows_are_appended_triples:
  "(write_strategy_to_db s filename fp w = Inr w1 \<longrightarrow>
      (\<exists>h. hash_strategy s = Inr h
         \<and> files w1 filename
             = Some (file_text w filename @ display_name s @ py '','' @ fp @ py '','' @ h @ [LF]))
      \<and> (\<forall>f. f \<noteq> filename \<longrightarrow> files w1 f = files w f))
   \<and> (original_name s = Some n \<longrightarrow> display_name s = n)
   \<and> (original_name s = None \<longrightarrow> display_name s = name s)
   \<and> (main lib t r tt tr vt vr w = Inr w' \<longrightarrow>
      (\<exists>rows. files w' db_csv = Some (file_text w db_csv @ concat (map db_line rows))
         \<and> (\<forall>row\<in>set rows. \<exists>s'\<in>set (short_run_time_strategies lib). \<exists>k\<in>set kinds. \<exists>h.
               hash_strategy s' = Inr h \<and> row = (display_name s', k, h))))
   \<and> (read_db filename w = Inr db \<longrightarrow>
      (\<exists>t rows. files w filename = Some t \<and> csv_reader (readlines t) = map Inr rows
         \<and> db = fold store_row rows Map.empty
         \<and> dom db = (\<lambda>r. (r ! 0, r ! 1)) ` set rows))"
proof -
  have wr: "(\<exists>h. hash_strategy s = Inr h
         \<and> files w1 filename
             = Some (file_text w filename @ display_name s @ py '','' @ fp @ py '','' @ h @ [LF]))
      \<and> (\<forall>f. f \<noteq> filename \<longrightarrow> files w1 f = files w f)"
    if "write_strategy_to_db s filename fp w = Inr w1"
    using that
    by (auto simp: write_strategy_to_db_Inr append_file_def file_text_def)
  have mn: "\<exists>rows. files w' db_csv = Some (file_text w db_csv @ concat (map db_line rows))
         \<and> (\<forall>row\<in>set rows. \<exists>s'\<in>set (short_run_time_strategies lib). \<exists>k\<in>set kinds. \<exists>h.
               hash_strategy s' = Inr h \<and> row = (display_name s', k, h))"
    if "main lib t r tt tr vt vr w = Inr w'"
  proof -
    from main_effect [OF that] obtain db0 where
      hs: "\<forall>s\<in>set (short_run_time_strategies lib). hash_strategy s = Inr (hash_of s)"
      and f: "files w' db_csv = Some (file_text w db_csv
          @ concat (map db_line (library_rows lib db0 @ fortran_rows lib db0)))"
      by blast
    have "\<exists>s'\<in>set (short_run_time_strategies lib). \<exists>k\<in>set kinds. \<exists>h.
        hash_strategy s' = Inr h \<and> row = (display_name s', k, h)"
      if "row \<in> set (library_rows lib db0 @ fortran_rows lib db0)" for row
      using main_rows_form [OF that] hs by blast
    with f show ?thesis
      by blast
  qed
  have rd: "\<exists>t rows. files w filename = Some t \<and> csv_reader (readlines t) = map Inr rows
         \<and> db = fold store_row rows Map.empty
         \<and> dom db = (\<lambda>r. (r ! 0, r ! 1)) ` set rows"
    if "read_db filename w = Inr db"
  proof -
    from that obtain t where t: "files w filename = Some t"
      and d: "dict_of_rows (csv_reader (readlines t)) Map.empty = Inr db"
      by (auto simp: read_db_def split: option.splits)
    from dict_of_rows_Inr [OF d] obtain rows where "csv_reader (readlines t) = map Inr rows"
      "db = fold store_row rows Map.empty"
      by blast
    with t show ?thesis
      by (auto simp: dom_fold_store_row)
  qed
  from wr mn rd show ?thesis
    by (simp add: display_name_def)
qed

theorem cache_rows_are_appended_triples_witness:
  "write_strategy_to_db example_strategy db_csv (py ''Ashlock'') empty_world
     = Inr (append_file db_csv
         (py ''Tit For Tat,Ashlock,900150983cd24fb0d6963f7d28e17f72'' @ [LF]) empty_world)
   \<and> files (append_file db_csv
         (py ''Tit For Tat,Ashlock,900150983cd24fb0d6963f7d28e17f72'' @ [LF]) empty_world) db_csv
     = Some (py ''Tit For Tat,Ashlock,900150983cd24fb0d6963f7d28e17f72'' @ [LF])
   \<and> original_name example_player = Some (py ''k31r'')
   \<and> display_name example_player = py ''k31r''
   \<and> original_name example_strategy = None
   \<and> display_name example_strategy = name example_strategy
   \<and> (\<exists>w' rows. main library_only 200 50 200 50 200 50 empty_world = Inr w'
         \<and> files w' db_csv = Some (concat (map db_line rows)))
   \<and> (\<exists>db. read_db db_csv rewritten_world = Inr db
         \<and> dom db = {(py ''Tit For Tat'', py ''Ashlock''), (py ''Tit For Tat'', py ''Transitive'')})"
proof -
  let ?line = "py ''Tit For Tat,Ashlock,900150983cd24fb0d6963f7d28e17f72'' @ [LF]"
  let ?w1 = "append_file db_csv ?line empty_world"
  have wr: "write_strategy_to_db example_strategy db_csv (py ''Ashlock'') empty_world = Inr ?w1"
    by (simp add: write_strategy_to_db_eq hash_example_strategy example_strategy_names
        encodable_py) (simp add: py_def)
  from first_run obtain w' where run: "main library_only 200 50 200 50 200 50 empty_world = Inr w'"
    by blast
  have "read_db db_csv rewritten_world
      = Inr (map_of (rev (map (\<lambda>(n, k, h). ((n, k), h)) rewritten_rows)))"
    by (intro read_db_db_lines)
      (simp_all add: rewritten_world_def rewritten_rows_def plain_field_def py_def
        field_limit_def delimiter_def quotechar_def LF_def CR_def)
  then obtain db where rd: "read_db db_csv rewritten_world = Inr db"
    by blast
  have seq: "csv_reader (readlines (concat (map db_line rewritten_rows)))
      = map Inr (map row_list rewritten_rows)"
    by (simp add: rewritten_rows_def csv_defs py_def)
  have ft: "file_text empty_world db_csv = []"
    by (simp add: file_text_def empty_world_fields)
  note write_and_run = cache_rows_are_appended_triples
    [where s = example_strategy and filename = db_csv and fp = "py ''Ashlock''"
      and w = empty_world and ?w1.0 = ?w1 and lib = library_only and t = 200 and r = 50
      and tt = 200 and tr = 50 and vt = 200 and vr = 50 and w' = w']
  from write_and_run wr
  have "\<exists>h. hash_strategy example_strategy = Inr h
      \<and> files ?w1 db_csv
          = Some (file_text empty_world db_csv @ display_name example_strategy @ py '',''
              @ py ''Ashlock'' @ py '','' @ h @ [LF])"
    by blast
  then have 1: "files ?w1 db_csv = Some ?line"
    by (auto simp: hash_example_strategy example_strategy_names ft py_def)
  from write_and_run run
  have "\<exists>rows. files w' db_csv
      = Some (file_text empty_world db_csv @ concat (map db_line rows))"
    by blast
  then have 2: "\<exists>rows. files w' db_csv = Some (concat (map db_line rows))"
    by (simp add: ft)
  from write_and_run have "original_name example_strategy = None
      \<longrightarrow> display_name example_strategy = name example_strategy"
    by blast
  then have 4: "display_name example_strategy = name example_strategy"
    by (simp add: example_strategy_names)
  from cache_rows_are_appended_triples
    [where filename = db_csv and w = rewritten_world and db = db] rd
  have "\<exists>t rows. files rewritten_world db_csv = Some t
      \<and> csv_reader (readlines t) = map Inr rows
      \<and> dom db = (\<lambda>r. (r ! 0, r ! 1)) ` set rows"
    by blast
  then obtain rows where rs: "csv_reader (readlines (concat (map db_line rewritten_rows)))
      = map Inr rows" and d: "dom db = (\<lambda>r. (r ! 0, r ! 1)) ` set rows"
    by (auto simp: rewritten_world_def)
  from rs [symmetric] seq
  have "(map Inr rows :: (exn + str list) list) = map Inr (map row_list rewritten_rows)"
    by (rule trans)
  then have "rows = map row_list rewritten_rows"
    by (simp only: inj_map_eq_map [OF inj_Inr])
  with d have 3: "dom db = {(py ''Tit For Tat'', py ''Ashlock''), (py ''Tit For Tat'', py ''Transitive'')}"
    by (auto simp: rewritten_rows_def)
  from cache_rows_are_appended_triples [where s = example_player and n = "py ''k31r''"]
  have "original_name example_player = Some (py ''k31r'')
      \<longrightarrow> display_name example_player = py ''k31r''"
    by blast
  then have 5: "display_name example_player = py ''k31r''"
    by (simp add: example_player_names)
  from wr 1 2 3 4 5 run rd show ?thesis
    by (auto simp: example_player_names example_strategy_names)
qed




text \<open>
  Claim C2 holds for each \<open>if\<close> statement taken alone, and fails for \<open>main\<close>: the
  branches of the second loop work on the variable \<open>strategy\<close>, which the first loop
  left bound to its last strategy, and not on the player they have tested. Here the
  cache holds the three entries of the only strategy of the library with its current
  hash, and the Fortran strategy \<open>k31r\<close> has no entry: the run computes the two
  transitive fingerprints of the library's strategy again, writes its figure again, and
  appends its three rows to the cache file a second time.
\<close>

theorem fresh_strategy_is_recomputed:
  "hash_strategy example_strategy = Inr (py ''900150983cd24fb0d6963f7d28e17f72'')
   \<and> map_sum id (\<lambda>db. map (\<lambda>k. db (name example_strategy, k)) kinds)
       (read_db db_csv cached_world)
     = Inr (replicate 3 (Some (py ''900150983cd24fb0d6963f7d28e17f72'')))
   \<and> map_sum id computed (main example_library 200 50 200 50 200 50 cached_world)
     = Inr [TransitiveFingerprint example_strategy 200 50,
            TransitiveFingerprint_v_short example_strategy 200 50]
   \<and> map_sum id (\<lambda>w. files w db_csv) (main example_library 200 50 200 50 200 50 cached_world)
     = Inr (Some (concat (map db_line (cached_rows @ cached_rows))))
   \<and> map_sum id (\<lambda>w. artifacts w (py ''assets/transitive_Tit_For_Tat.png''))
       (main example_library 200 50 200 50 200 50 cached_world)
     = Inr (Some (Figure (TransitiveFingerprint example_strategy 200 50)))"
proof -
  have "map_sum id (\<lambda>db. map (\<lambda>k. db (name example_strategy, k)) kinds)
       (read_db db_csv cached_world)
     = Inr (replicate 3 (Some (py ''900150983cd24fb0d6963f7d28e17f72'')))"
    by (simp add: read_cached_world cached_rows_def kinds_def example_strategy_names
        numeral_3_eq_3 py_def)
  moreover from cached_run obtain w'
    where "main example_library 200 50 200 50 200 50 cached_world = Inr w'"
      "computed w' = [TransitiveFingerprint example_strategy 200 50,
                      TransitiveFingerprint_v_short example_strategy 200 50]"
      "files w' db_csv = Some (concat (map db_line (cached_rows @ cached_rows)))"
      "artifacts w' (py ''assets/transitive_Tit_For_Tat.png'')
         = Some (Figure (TransitiveFingerprint example_strategy 200 50))"
    by blast
  ultimately show ?thesis
    by (simp add: hash_example_strategy)
qed

end
